theory Spec2Isabelle
  imports Complex_Main "HOL-Library.Sublist" "HOL-Library.AList"
begin

section \<open>JavaScript values\<close>

text \<open>
  The program is \<^verbatim>\<open>src/index.js\<close>, three Rovo actions in front of an ordering API.
  Its data are JSON values: the action payloads, the parsed item list and the upstream
  responses.

  A string is the list of its UTF-16 code units, each a number below 65536; \<open>lit\<close> gives
  the code units of a text of the program, which is ASCII.

  A number is an IEEE double. The program compares numbers with zero, tests them for
  finiteness, floors them and subtracts two times, all of which are exact, so a finite
  number is the rational it denotes (both zeros are \<open>Fin 0\<close>). The one operation that
  rounds, the product in the jitter, is left to the host.

  An object is the list of its own properties in insertion order. Objects are data, as
  \<^verbatim>\<open>JSON.parse\<close> and the action runtime produce them: no property holds a function.
\<close>

type_synonym jsstring = "nat list"

definition lit :: "string \<Rightarrow> jsstring" where
  "lit s = map of_char s"

datatype jsnum = NaN | PosInf | NegInf | Fin rat

datatype jsval =
    JUndefined
  | JNull
  | JBool bool
  | JNum jsnum
  | JStr jsstring
  | JArr "jsval list"
  | JObj "(jsstring \<times> jsval) list"

text \<open>Truthiness, as \<^verbatim>\<open>if (v)\<close>, \<^verbatim>\<open>!v\<close>, \<^verbatim>\<open>a || b\<close> and \<^verbatim>\<open>a && b\<close> read it.\<close>

fun truthy :: "jsval \<Rightarrow> bool" where
  "truthy JUndefined = False"
| "truthy JNull = False"
| "truthy (JBool b) = b"
| "truthy (JNum n) = (n \<noteq> NaN \<and> n \<noteq> Fin 0)"
| "truthy (JStr s) = (s \<noteq> [])"
| "truthy (JArr xs) = True"
| "truthy (JObj kvs) = True"

text \<open>
  \<^verbatim>\<open>a || b\<close>, \<^verbatim>\<open>a && b\<close> and \<^verbatim>\<open>a ?? b\<close> on values (both operands are pure wherever
  the program uses them).
\<close>

definition js_or :: "jsval \<Rightarrow> jsval \<Rightarrow> jsval" where
  "js_or a b = (if truthy a then a else b)"

definition js_and :: "jsval \<Rightarrow> jsval \<Rightarrow> jsval" where
  "js_and a b = (if truthy a then b else a)"

definition nullish :: "jsval \<Rightarrow> bool" where
  "nullish v = (v = JUndefined \<or> v = JNull)"

definition js_coalesce :: "jsval \<Rightarrow> jsval \<Rightarrow> jsval" where
  "js_coalesce a b = (if nullish a then b else a)"

text \<open>
  \<^verbatim>\<open>v?.k\<close>: the own property \<open>k\<close> of an object, \<^verbatim>\<open>undefined\<close> on \<^verbatim>\<open>null\<close>,
  \<^verbatim>\<open>undefined\<close> and on every other value (the names read by the program are no
  properties of strings, numbers, booleans or arrays, and none is defined on
  \<^verbatim>\<open>Object.prototype\<close>). The program writes \<^verbatim>\<open>v.k\<close> without the question mark only
  where \<open>v\<close> is known to be truthy, except in \<open>summarizeQuote\<close>, whose model raises the
  \<^verbatim>\<open>TypeError\<close> itself.
\<close>

fun getProp :: "jsval \<Rightarrow> jsstring \<Rightarrow> jsval" where
  "getProp (JObj kvs) k = (case map_of kvs k of Some v \<Rightarrow> v | None \<Rightarrow> JUndefined)"
| "getProp v k = JUndefined"

subsection \<open>Strings\<close>

text \<open>
  The white space of \<^verbatim>\<open>String.prototype.trim\<close> and of \<^verbatim>\<open>\s\<close>: tab, line feed, vertical
  tab, form feed, carriage return, space, no-break space, the space separators U+1680,
  U+2000 to U+200A, U+202F, U+205F and U+3000, the line and paragraph separators U+2028
  and U+2029, and the byte order mark U+FEFF. The line terminators are what \<^verbatim>\<open>.\<close> does
  not match; the digits are those of \<^verbatim>\<open>\d\<close>.
\<close>

definition isWhite :: "nat \<Rightarrow> bool" where
  "isWhite c =
     (c \<in> {9, 10, 11, 12, 13, 32, 160, 5760, 8232, 8233, 8239, 8287, 12288, 65279} \<or>
      (8192 \<le> c \<and> c \<le> 8202))"

definition isLineTerminator :: "nat \<Rightarrow> bool" where
  "isLineTerminator c = (c \<in> {10, 13, 8232, 8233})"

definition isDigit :: "nat \<Rightarrow> bool" where
  "isDigit c = (48 \<le> c \<and> c \<le> 57)"

definition js_trim :: "jsstring \<Rightarrow> jsstring" where
  "js_trim s = rev (dropWhile isWhite (rev (dropWhile isWhite s)))"

text \<open>
  The letter case of a regular expression with the flag \<^verbatim>\<open>i\<close>, as far as a pattern of
  ASCII characters sees it: \<open>a\<close> to \<open>z\<close> stand for \<open>A\<close> to \<open>Z\<close>, and no character beyond
  ASCII stands for an ASCII one.
\<close>

definition canonicalize :: "nat \<Rightarrow> nat" where
  "canonicalize c = (if 97 \<le> c \<and> c \<le> 122 then c - 32 else c)"

fun join :: "jsstring \<Rightarrow> jsstring list \<Rightarrow> jsstring" where
  "join sep [] = []"
| "join sep [x] = x"
| "join sep (x # y # ys) = x @ sep @ join sep (y # ys)"

text \<open>\<^verbatim>\<open>s.includes(sub)\<close>.\<close>

fun js_includes :: "jsstring \<Rightarrow> jsstring \<Rightarrow> bool" where
  "js_includes [] sub = (sub = [])"
| "js_includes (c # cs) sub = (prefix sub (c # cs) \<or> js_includes cs sub)"

section \<open>Errors\<close>

text \<open>
  Every \<^verbatim>\<open>throw\<close> of the program is a value. \<open>user_error\<close> lists the messages of the
  class \<^verbatim>\<open>UserError\<close>:
  \<^item> \<open>Required name\<close>: "name is required and must be a non-empty string."
  \<^item> \<open>BadServiceMethod raw\<close>: "serviceMethod must be DELIVERY or CARRYOUT (got raw)."
  \<^item> \<open>InvalidJson name e\<close>: "name must be valid JSON.", with details \<open>{error: e}\<close>
  \<^item> \<open>ItemsNotArray\<close>: "itemsJson must be a non-empty JSON array of product objects."
  \<^item> \<open>ItemNotObject i\<close>: "itemsJson[i] must be an object."
  \<^item> \<open>ItemCodeRequired i\<close>: "itemsJson[i].Code is required."
  \<^item> \<open>ItemQtyInvalid i\<close>: "itemsJson[i].Qty must be a positive number."
  \<^item> \<open>NoStoresFound\<close>: "No Domino's stores found for that address."
  \<^item> \<open>StoreIdMissing\<close>: "Could not determine a StoreID from store-locator response."
  \<^item> \<open>ConfirmationRequired\<close>: "Refusing to place order: confirm must be true (explicit
    user confirmation required)."
  \<^item> \<open>UnknownToken\<close>: "Unknown or expired orderToken. Please re-quote the order."
  \<^item> \<open>QuoteExpired\<close>: "That quote has expired. Please re-quote the order."

  \<open>RequestFailed status statusText data\<close> is the plain \<^verbatim>\<open>Error\<close> of \<open>dominosFetchJson\<close>
  ("Domino request failed: status statusText", with \<^verbatim>\<open>.status\<close> and \<^verbatim>\<open>.data\<close>).
  \<open>TypeError\<close> is what the language throws itself: a property read on \<^verbatim>\<open>null\<close> or
  \<^verbatim>\<open>undefined\<close>, a call of a property that is no function, a conversion of an object to
  a primitive that finds no method. \<open>FetchRejected\<close> is a rejected \<^verbatim>\<open>fetch\<close> promise, and
  \<open>ThrownUndefined\<close> the \<^verbatim>\<open>throw lastErr\<close> of a loop that made no attempt.
\<close>

datatype user_error =
    Required string
  | BadServiceMethod jsstring
  | InvalidJson string jsstring
  | ItemsNotArray
  | ItemNotObject nat
  | ItemCodeRequired nat
  | ItemQtyInvalid nat
  | NoStoresFound
  | StoreIdMissing
  | ConfirmationRequired
  | UnknownToken
  | QuoteExpired

datatype error =
    UserError user_error
  | RequestFailed int jsstring jsval
  | TypeError
  | FetchRejected
  | ThrownUndefined

definition bindE :: "error + 'a \<Rightarrow> ('a \<Rightarrow> error + 'b) \<Rightarrow> error + 'b" where
  "bindE m f = (case m of Inl e \<Rightarrow> Inl e | Inr v \<Rightarrow> f v)"

text \<open>The results of a list of steps, in order; the first that throws ends them.\<close>

fun sequenceE :: "(error + 'a) list \<Rightarrow> error + 'a list" where
  "sequenceE [] = Inr []"
| "sequenceE (m # ms) = bindE m (\<lambda>v. bindE (sequenceE ms) (\<lambda>vs. Inr (v # vs)))"

section \<open>Host functions and conversions\<close>

text \<open>
  What the JavaScript host computes and the repository does not define is a parameter:
  \<^verbatim>\<open>JSON.parse\<close> (\<open>Inl\<close> carries the text of the \<^verbatim>\<open>SyntaxError\<close>), the decimal text of a
  number, the number a string denotes, \<^verbatim>\<open>String.prototype.toUpperCase\<close> with the case
  tables of Unicode, and the product of two doubles, rounded as IEEE 754 says.
\<close>

record builtins =
  parseJSON :: "jsstring \<Rightarrow> jsstring + jsval"
  numToString :: "jsnum \<Rightarrow> jsstring"
  stringToNumber :: "jsstring \<Rightarrow> jsnum"
  toUpperCase :: "jsstring \<Rightarrow> jsstring"
  multiply :: "rat \<Rightarrow> rat \<Rightarrow> rat"

text \<open>
  \<^verbatim>\<open>String(v)\<close>, \<^verbatim>\<open>v.toString()\<close> on a value that is not \<^verbatim>\<open>null\<close> or \<^verbatim>\<open>undefined\<close>,
  and a value inside a template literal. An array is joined with commas, \<^verbatim>\<open>null\<close> and
  \<^verbatim>\<open>undefined\<close> among its elements giving the empty string. An object is
  \<^verbatim>\<open>[object Object]\<close> by the method it inherits; when it has a property \<open>toString\<close> of
  its own, that property is no function and the conversion throws a \<^verbatim>\<open>TypeError\<close>
  (a property \<open>valueOf\<close> of its own is passed over, and the inherited \<open>valueOf\<close> returns
  no primitive).
\<close>

fun js_String :: "builtins \<Rightarrow> jsval \<Rightarrow> error + jsstring" where
  "js_String js JUndefined = Inr (lit ''undefined'')"
| "js_String js JNull = Inr (lit ''null'')"
| "js_String js (JBool b) = Inr (if b then lit ''true'' else lit ''false'')"
| "js_String js (JNum n) = Inr (numToString js n)"
| "js_String js (JStr s) = Inr s"
| "js_String js (JArr xs) =
     bindE (sequenceE (map (\<lambda>x. if nullish x then Inr [] else js_String js x) xs))
       (\<lambda>parts. Inr (join (lit '','') parts))"
| "js_String js (JObj kvs) =
     (if map_of kvs (lit ''toString'') \<noteq> None then Inl TypeError
      else Inr (lit ''[object Object]''))"

text \<open>
  \<^verbatim>\<open>Number(v)\<close>. An array or object is converted to a primitive first, which ends with
  its \<open>toString\<close> as above.
\<close>

fun js_Number :: "builtins \<Rightarrow> jsval \<Rightarrow> error + jsnum" where
  "js_Number js JUndefined = Inr NaN"
| "js_Number js JNull = Inr (Fin 0)"
| "js_Number js (JBool b) = Inr (Fin (if b then 1 else 0))"
| "js_Number js (JNum n) = Inr n"
| "js_Number js (JStr s) = Inr (stringToNumber js s)"
| "js_Number js (JArr xs) = bindE (js_String js (JArr xs)) (\<lambda>t. Inr (stringToNumber js t))"
| "js_Number js (JObj kvs) = bindE (js_String js (JObj kvs)) (\<lambda>t. Inr (stringToNumber js t))"

section \<open>Domain normalizers\<close>

definition assertString :: "jsval \<Rightarrow> string \<Rightarrow> error + jsstring" where
  "assertString v name =
     (case v of
        JStr s \<Rightarrow> if length (js_trim s) = 0 then Inl (UserError (Required name))
                  else Inr (js_trim s)
      | _ \<Rightarrow> Inl (UserError (Required name)))"

text \<open>The result \<open>None\<close> is \<^verbatim>\<open>undefined\<close>; a returned string is never empty.\<close>

definition assertOptionalString :: "jsval \<Rightarrow> jsstring option" where
  "assertOptionalString v =
     (if nullish v then None
      else case v of
        JStr s \<Rightarrow> (if length (js_trim s) \<noteq> 0 then Some (js_trim s) else None)
      | _ \<Rightarrow> None)"

definition normalizeServiceMethod :: "builtins \<Rightarrow> jsval \<Rightarrow> error + jsstring" where
  "normalizeServiceMethod js serviceMethod =
     bindE (js_String js (js_or serviceMethod (JStr (lit ''DELIVERY'')))) (\<lambda>t.
       let raw = toUpperCase js (js_trim t)
       in if raw = lit ''DELIVERY'' then Inr (lit ''Delivery'')
          else if raw = lit ''CARRYOUT'' then Inr (lit ''Carryout'')
          else Inl (UserError (BadServiceMethod raw)))"

definition safeJsonParse :: "builtins \<Rightarrow> jsstring \<Rightarrow> string \<Rightarrow> error + jsval" where
  "safeJsonParse js str name =
     (case parseJSON js str of
        Inl e \<Rightarrow> Inl (UserError (InvalidJson name e))
      | Inr v \<Rightarrow> Inr v)"

text \<open>
  \<open>buildStreetName\<close> applies two regular expressions. \<open>stripHouseNumber\<close> is
  \<^verbatim>\<open>replace(/^\s*\d+\s+/, '')\<close>: leading blanks, at least one digit and at least one blank
  are cut from the start when all three are there. \<open>stripUnit\<close> is
  \<^verbatim>\<open>replace(/\s+(APT|APARTMENT|UNIT|STE|SUITE|#)\s*.*$/i, '')\<close>: at the leftmost place
  where blanks, a unit marker in either letter case and a rest without a line terminator
  (after its leading blanks) follow, the string is cut.
\<close>

definition stripHouseNumber :: "jsstring \<Rightarrow> jsstring" where
  "stripHouseNumber s =
     (let r0 = dropWhile isWhite s;
          r1 = dropWhile isDigit r0
      in if takeWhile isDigit r0 \<noteq> [] \<and> takeWhile isWhite r1 \<noteq> []
         then dropWhile isWhite r1 else s)"

definition unitMarkers :: "jsstring list" where
  "unitMarkers =
     [lit ''APT'', lit ''APARTMENT'', lit ''UNIT'', lit ''STE'', lit ''SUITE'', lit ''#'']"

definition unitMatches :: "jsstring \<Rightarrow> bool" where
  "unitMatches r =
     (let r1 = dropWhile isWhite r
      in takeWhile isWhite r \<noteq> [] \<and>
         list_ex (\<lambda>m. map canonicalize (take (length m) r1) = m \<and>
                       \<not> list_ex isLineTerminator (dropWhile isWhite (drop (length m) r1)))
           unitMarkers)"

fun stripUnit :: "jsstring \<Rightarrow> jsstring" where
  "stripUnit [] = []"
| "stripUnit (c # cs) = (if unitMatches (c # cs) then [] else c # stripUnit cs)"

definition buildStreetName :: "jsstring \<Rightarrow> jsstring" where
  "buildStreetName line1 =
     (let s = js_trim line1;
          withoutNumber = stripHouseNumber s;
          withoutUnit = js_trim (stripUnit withoutNumber)
      in if withoutUnit \<noteq> [] then withoutUnit else s)"

text \<open>
  The argument of \<open>buildAddress\<close> is the object literal the caller builds from the
  payload; its five fields are the parameters. The outcome is the \<open>Address\<close> object of
  the order payload.
\<close>

definition buildAddress ::
  "builtins \<Rightarrow> jsval \<Rightarrow> jsval \<Rightarrow> jsval \<Rightarrow> jsval \<Rightarrow> jsval \<Rightarrow> error + jsval" where
  "buildAddress js addressLine1 addressLine2 city region postalCode =
     bindE (assertString addressLine1 ''addressLine1'') (\<lambda>line1.
       let line2 = assertOptionalString addressLine2;
           street = (case line2 of Some l2 \<Rightarrow> line1 @ lit '' '' @ l2 | None \<Rightarrow> line1)
       in bindE (assertString city ''city'') (\<lambda>c.
          bindE (assertString region ''region'') (\<lambda>r.
          bindE (assertString postalCode ''postalCode'') (\<lambda>pc.
            Inr (JObj
              [(lit ''Street'', JStr street),
               (lit ''StreetName'', JStr (buildStreetName line1)),
               (lit ''City'', JStr (toUpperCase js c)),
               (lit ''Region'', JStr (toUpperCase js r)),
               (lit ''PostalCode'', JStr pc),
               (lit ''Type'',
                JStr (case line2 of Some l2 \<Rightarrow> lit ''Apartment'' | None \<Rightarrow> lit ''House''))])))))"

subsection \<open>Line items\<close>

text \<open>\<^verbatim>\<open>typeof p === 'object'\<close> holds of \<^verbatim>\<open>null\<close>, arrays and objects.\<close>

fun typeofObject :: "jsval \<Rightarrow> bool" where
  "typeofObject JNull = True"
| "typeofObject (JArr xs) = True"
| "typeofObject (JObj kvs) = True"
| "typeofObject v = False"

text \<open>
  The own properties \<^verbatim>\<open>{...p}\<close> copies. Only an object reaches the spread: an array
  has no string \<open>Code\<close> and is refused before.
\<close>

fun ownProps :: "jsval \<Rightarrow> (jsstring \<times> jsval) list" where
  "ownProps (JObj kvs) = kvs"
| "ownProps v = []"

definition js_floor :: "rat \<Rightarrow> jsnum" where
  "js_floor q = Fin (of_int \<lfloor>q\<rfloor>)"

text \<open>The callback of \<^verbatim>\<open>items.map\<close> in \<open>buildProducts\<close>, at index \<open>idx\<close>.\<close>

definition buildProduct :: "builtins \<Rightarrow> nat \<Rightarrow> jsval \<Rightarrow> error + jsval" where
  "buildProduct js idx p =
     (if \<not> truthy p \<or> \<not> typeofObject p then Inl (UserError (ItemNotObject idx))
      else case getProp p (lit ''Code'') of
        JStr code \<Rightarrow>
          if js_trim code = [] then Inl (UserError (ItemCodeRequired idx))
          else bindE (js_Number js (getProp p (lit ''Qty''))) (\<lambda>n.
            case n of
              Fin qty \<Rightarrow>
                if qty \<le> 0 then Inl (UserError (ItemQtyInvalid idx))
                else Inr (JObj
                  (AList.update (lit ''isNew'')
                     (js_coalesce (getProp p (lit ''isNew'')) (JBool False))
                  (AList.update (lit ''ID'')
                     (js_coalesce (getProp p (lit ''ID'')) (JNum (Fin (of_nat (idx + 1)))))
                  (AList.update (lit ''Qty'') (JNum (js_floor qty))
                  (AList.update (lit ''Code'') (JStr (js_trim code)) (ownProps p))))))
            | _ \<Rightarrow> Inl (UserError (ItemQtyInvalid idx)))
      | _ \<Rightarrow> Inl (UserError (ItemCodeRequired idx)))"

text \<open>\<^verbatim>\<open>items.map\<close> from index \<open>idx\<close> on: the first item that throws ends the call.\<close>

fun buildProductsFrom :: "builtins \<Rightarrow> nat \<Rightarrow> jsval list \<Rightarrow> error + jsval list" where
  "buildProductsFrom js idx [] = Inr []"
| "buildProductsFrom js idx (p # ps) =
     bindE (buildProduct js idx p) (\<lambda>q.
     bindE (buildProductsFrom js (Suc idx) ps) (\<lambda>qs. Inr (q # qs)))"

definition buildProducts :: "builtins \<Rightarrow> jsval \<Rightarrow> error + jsval list" where
  "buildProducts js items =
     (case items of
        JArr xs \<Rightarrow> if length xs = 0 then Inl (UserError ItemsNotArray)
                   else buildProductsFrom js 0 xs
      | _ \<Rightarrow> Inl (UserError ItemsNotArray))"

subsection \<open>Quote summary\<close>

record summary =
  sm_storeId :: jsval
  sm_serviceMethod :: jsval
  sm_items :: "(jsval \<times> jsval) list"
  sm_totals :: jsval
  sm_total :: jsval

text \<open>
  The callback \<^verbatim>\<open>p => ({ code: p.Code, qty: p.Qty })\<close> reads \<open>p.Code\<close> without a guard:
  on \<^verbatim>\<open>null\<close> and \<^verbatim>\<open>undefined\<close> it throws a \<^verbatim>\<open>TypeError\<close>.
\<close>

fun summarizeItems :: "jsval list \<Rightarrow> error + (jsval \<times> jsval) list" where
  "summarizeItems [] = Inr []"
| "summarizeItems (p # ps) =
     (if nullish p then Inl TypeError
      else bindE (summarizeItems ps)
             (\<lambda>rest. Inr ((getProp p (lit ''Code''), getProp p (lit ''Qty'')) # rest)))"

definition summarizeQuote :: "jsval \<Rightarrow> error + summary" where
  "summarizeQuote priced =
     (let order = js_or (getProp priced (lit ''Order'')) (JObj []);
          products = (case getProp order (lit ''Products'') of JArr ps \<Rightarrow> ps | _ \<Rightarrow> []);
          amounts = js_or (getProp order (lit ''Amounts'')) (JObj []);
          total =
            js_or (js_or (js_or (js_or (js_or
              (getProp amounts (lit ''Customer''))
              (getProp amounts (lit ''Payment'')))
              (getProp amounts (lit ''Order'')))
              (getProp amounts (lit ''Total'')))
              (getProp amounts (lit ''Amount'')))
              (getProp (getProp (getProp priced (lit ''Order'')) (lit ''Amounts''))
                 (lit ''Customer''))
      in bindE (summarizeItems products) (\<lambda>items.
           Inr \<lparr>sm_storeId = getProp order (lit ''StoreID''),
                sm_serviceMethod = getProp order (lit ''ServiceMethod''),
                sm_items = items,
                sm_totals = amounts,
                sm_total = js_coalesce total JNull\<rparr>))"

section \<open>The world: storage, network, randomness\<close>

text \<open>
  A stored quote is the object \<open>quotePizzaOrder\<close> writes under the key
  \<^verbatim>\<open>pizza:quote:<token>\<close>; \<open>createdAt\<close> is a \<^verbatim>\<open>Date.now()\<close>, in milliseconds. The
  storage holds such quotes only: the program writes nothing else to it and reads no other
  key.
\<close>

record quote =
  createdAt :: int
  q_storeId :: jsstring
  q_serviceMethod :: jsstring
  storeHint :: jsval
  pricedDraft :: jsval

text \<open>
  What \<^verbatim>\<open>fetch\<close> is called with: the URL (base and path), the search parameters set
  on it, and the options. The body is kept as the value \<^verbatim>\<open>JSON.stringify\<close> is applied to.
\<close>

record request =
  rq_url :: jsstring
  rq_query :: "(jsstring \<times> jsstring) list"
  rq_method :: jsstring
  rq_headers :: "(jsstring \<times> jsstring) list"
  rq_body :: "jsval option"

text \<open>
  What the program reads of a response: \<^verbatim>\<open>res.ok\<close>, \<^verbatim>\<open>res.status\<close>,
  \<^verbatim>\<open>res.statusText\<close>, \<^verbatim>\<open>res.headers.get('content-type')\<close> (\<open>None\<close> is \<^verbatim>\<open>null\<close>) and
  \<^verbatim>\<open>await res.text()\<close>.
\<close>

record response =
  res_ok :: bool
  res_status :: int
  res_statusText :: jsstring
  res_contentType :: "jsstring option"
  res_text :: jsstring

datatype outcome = Rejects | Responds response

datatype event =
    Fetch request
  | Sleep int
  | StorageGet jsstring
  | StorageSet jsstring quote
  | StorageDelete jsstring

text \<open>
  The state an invocation runs in and leaves behind: the Forge storage, the effects
  performed so far (oldest first), and how many values have been drawn from the network,
  from \<^verbatim>\<open>Math.random\<close> and from \<^verbatim>\<open>crypto.randomUUID\<close>.
\<close>

record world =
  kv :: "jsstring \<rightharpoonup> quote"
  trace :: "event list"
  fetched :: nat
  rolled :: nat
  minted :: nat

text \<open>
  The surroundings, which the program does not control: the outcome of the \<open>n\<close>-th
  \<^verbatim>\<open>fetch\<close>, the \<open>n\<close>-th \<^verbatim>\<open>Math.random()\<close> and the \<open>n\<close>-th \<^verbatim>\<open>crypto.randomUUID()\<close>.
\<close>

record env =
  upstream :: "nat \<Rightarrow> outcome"
  random :: "nat \<Rightarrow> rat"
  uuid :: "nat \<Rightarrow> jsstring"

definition fetch :: "env \<Rightarrow> request \<Rightarrow> world \<Rightarrow> outcome \<times> world" where
  "fetch ev rq s =
     (upstream ev (fetched s), s\<lparr>trace := trace s @ [Fetch rq], fetched := Suc (fetched s)\<rparr>)"

definition mathRandom :: "env \<Rightarrow> world \<Rightarrow> rat \<times> world" where
  "mathRandom ev s = (random ev (rolled s), s\<lparr>rolled := Suc (rolled s)\<rparr>)"

definition randomUUID :: "env \<Rightarrow> world \<Rightarrow> jsstring \<times> world" where
  "randomUUID ev s = (uuid ev (minted s), s\<lparr>minted := Suc (minted s)\<rparr>)"

definition setTimeout :: "int \<Rightarrow> world \<Rightarrow> world" where
  "setTimeout ms s = s\<lparr>trace := trace s @ [Sleep ms]\<rparr>"

definition storage_get :: "jsstring \<Rightarrow> world \<Rightarrow> quote option \<times> world" where
  "storage_get k s = (kv s k, s\<lparr>trace := trace s @ [StorageGet k]\<rparr>)"

definition storage_set :: "jsstring \<Rightarrow> quote \<Rightarrow> world \<Rightarrow> world" where
  "storage_set k q s = s\<lparr>kv := (kv s)(k \<mapsto> q), trace := trace s @ [StorageSet k q]\<rparr>"

definition storage_delete :: "jsstring \<Rightarrow> world \<Rightarrow> world" where
  "storage_delete k s = s\<lparr>kv := (kv s)(k := None), trace := trace s @ [StorageDelete k]\<rparr>"

section \<open>Resilient HTTP client\<close>

definition DOMINOS_BASE :: jsstring where
  "DOMINOS_BASE = lit ''https://order.dominos.com''"

definition QUOTE_TTL_MS :: int where
  "QUOTE_TTL_MS = 30 * 60 * 1000"

definition maxAttempts :: nat where
  "maxAttempts = 4"

text \<open>
  The options of a call: \<open>method\<close> (the caller always gives it), \<open>query\<close> (\<open>None\<close>
  when left out, else the entries of the object literal) and \<open>body\<close> (\<open>JUndefined\<close> when
  left out).
\<close>

record options =
  o_method :: jsstring
  o_query :: "(jsstring \<times> jsval) list option"
  o_body :: jsval

text \<open>
  Lines 74 to 87: the URL with a search parameter \<^verbatim>\<open>String(v)\<close> for every entry of the
  query that is not \<^verbatim>\<open>null\<close> or \<^verbatim>\<open>undefined\<close>, the headers and the payload.
\<close>

definition buildRequest :: "builtins \<Rightarrow> jsstring \<Rightarrow> options \<Rightarrow> error + request" where
  "buildRequest js path opts =
     bindE (case o_query opts of
              None \<Rightarrow> Inr []
            | Some q \<Rightarrow>
                sequenceE (map (\<lambda>(k, v). bindE (js_String js v) (\<lambda>t. Inr (k, t)))
                             (filter (\<lambda>(k, v). \<not> nullish v) q))) (\<lambda>params.
       Inr \<lparr>rq_url = DOMINOS_BASE @ path,
            rq_query = params,
            rq_method = o_method opts,
            rq_headers =
              (if \<not> nullish (o_body opts)
               then [(lit ''Accept'', lit ''application/json''),
                     (lit ''Content-Type'', lit ''application/json'')]
               else [(lit ''Accept'', lit ''application/json'')]),
            rq_body = (if \<not> nullish (o_body opts) then Some (o_body opts) else None)\<rparr>)"

text \<open>Lines 96 to 98: the parsed body, the raw text, or \<^verbatim>\<open>null\<close> for an empty body.\<close>

definition responseData :: "builtins \<Rightarrow> response \<Rightarrow> error + jsval" where
  "responseData js res =
     (let body = res_text res;
          isJson = js_includes (case res_contentType res of Some ct \<Rightarrow> ct | None \<Rightarrow> [])
                     (lit ''application/json'')
      in if isJson \<and> body \<noteq> [] then safeJsonParse js body ''Domino response''
         else Inr (if body \<noteq> [] then JStr body else JNull))"

definition retryable :: "int \<Rightarrow> bool" where
  "retryable status = (status = 429 \<or> (status \<ge> 500 \<and> status \<le> 599))"

definition backoff :: "nat \<Rightarrow> int" where
  "backoff attempt = 250 * 2 ^ (attempt - 1)"

text \<open>
  \<^verbatim>\<open>Math.floor(Math.random() * 200)\<close> for the drawn value \<open>r\<close>: the floor of the product
  as the host rounds it.
\<close>

definition jitter :: "builtins \<Rightarrow> rat \<Rightarrow> int" where
  "jitter js r = \<lfloor>multiply js r 200\<rfloor>"

text \<open>
  The \<^verbatim>\<open>for\<close> loop of \<open>dominosFetchJson\<close> from \<open>attempt\<close> on, with \<open>lastErr\<close> as
  it stands, and the \<^verbatim>\<open>throw lastErr\<close> behind the loop.
\<close>

function attempts ::
  "builtins \<Rightarrow> env \<Rightarrow> request \<Rightarrow> nat \<Rightarrow> error option \<Rightarrow> world \<Rightarrow> (error + jsval) \<times> world" where
  "attempts js ev rq attempt lastErr s =
     (if attempt \<le> maxAttempts then
        (case fetch ev rq s of
           (Rejects, s1) \<Rightarrow> (Inl FetchRejected, s1)
         | (Responds res, s1) \<Rightarrow>
             (case responseData js res of
                Inl e \<Rightarrow> (Inl e, s1)
              | Inr data \<Rightarrow>
                  if res_ok res then (Inr data, s1)
                  else if \<not> retryable (res_status res) \<or> attempt = maxAttempts
                  then (Inl (RequestFailed (res_status res) (res_statusText res) data), s1)
                  else (case mathRandom ev s1 of
                          (r, s2) \<Rightarrow>
                            attempts js ev rq (attempt + 1)
                              (Some (RequestFailed (res_status res) (res_statusText res) data))
                              (setTimeout (backoff attempt + jitter js r) s2))))
      else (case lastErr of Some e \<Rightarrow> (Inl e, s) | None \<Rightarrow> (Inl ThrownUndefined, s)))"
  by pat_completeness auto
termination
  by (relation "measure (\<lambda>(js, ev, rq, attempt, lastErr, s). maxAttempts + 1 - attempt)") auto

definition dominosFetchJson ::
  "builtins \<Rightarrow> env \<Rightarrow> jsstring \<Rightarrow> options \<Rightarrow> world \<Rightarrow> (error + jsval) \<times> world" where
  "dominosFetchJson js ev path opts s =
     (case buildRequest js path opts of
        Inl e \<Rightarrow> (Inl e, s)
      | Inr rq \<Rightarrow> attempts js ev rq 1 None s)"

text \<open>The options \<^verbatim>\<open>{ method: 'POST', body: v }\<close> of the three POST calls.\<close>

definition postOptions :: "jsval \<Rightarrow> options" where
  "postOptions v = \<lparr>o_method = lit ''POST'', o_query = None, o_body = v\<rparr>"

section \<open>Store resolution\<close>

text \<open>\<^verbatim>\<open>xs.find(P)\<close> and \<^verbatim>\<open>xs[0]\<close>; both are \<^verbatim>\<open>undefined\<close> when there is no such element.\<close>

definition js_find :: "(jsval \<Rightarrow> bool) \<Rightarrow> jsval list \<Rightarrow> jsval" where
  "js_find P xs = (case find P xs of Some x \<Rightarrow> x | None \<Rightarrow> JUndefined)"

definition js_first :: "jsval list \<Rightarrow> jsval" where
  "js_first xs = (case xs of [] \<Rightarrow> JUndefined | x # rest \<Rightarrow> x)"

text \<open>
  Lines 128 to 141 of \<open>findBestStore\<close>: what it does with the locator's answer. The two
  callbacks of \<^verbatim>\<open>find\<close> are \<^verbatim>\<open>s => s?.IsOnlineNow && (s?.IsOpen || s?.ServiceIsOpen)\<close>
  and \<^verbatim>\<open>s => s?.IsOnlineNow\<close>, read for their truthiness.
\<close>

definition chooseStore :: "builtins \<Rightarrow> jsval \<Rightarrow> error + jsstring \<times> jsval" where
  "chooseStore js data =
     (let stores = (case getProp data (lit ''Stores'') of JArr xs \<Rightarrow> xs | _ \<Rightarrow> [])
      in if length stores = 0 then Inl (UserError NoStoresFound)
         else
           let best =
                 js_or (js_or
                   (js_find (\<lambda>s. truthy (js_and (getProp s (lit ''IsOnlineNow''))
                                       (js_or (getProp s (lit ''IsOpen''))
                                              (getProp s (lit ''ServiceIsOpen''))))) stores)
                   (js_find (\<lambda>s. truthy (getProp s (lit ''IsOnlineNow''))) stores))
                   (js_first stores)
           in bindE (js_String js
                       (js_or (js_or (getProp best (lit ''StoreID'')) (getProp best (lit ''StoreId'')))
                          (JStr []))) (\<lambda>t.
                let storeId = js_trim t
                in if storeId = [] then Inl (UserError StoreIdMissing)
                   else Inr (storeId, best)))"

text \<open>
  The options \<open>findBestStore\<close> calls the locator with (lines 119 to 126); the template
  literal converts the three values to strings.
\<close>

definition locatorOptions ::
  "builtins \<Rightarrow> jsval \<Rightarrow> jsval \<Rightarrow> jsval \<Rightarrow> jsval \<Rightarrow> jsstring \<Rightarrow> error + options" where
  "locatorOptions js addressLine1 city region postalCode serviceMethod =
     (let type = (if serviceMethod = lit ''Delivery'' then lit ''Delivery'' else lit ''Carryout'')
      in bindE (js_String js city) (\<lambda>cityText.
         bindE (js_String js region) (\<lambda>regionText.
         bindE (js_String js postalCode) (\<lambda>postalText.
           let c = cityText @ lit '', '' @ regionText @ lit '' '' @ postalText
           in Inr \<lparr>o_method = lit ''GET'',
                   o_query = Some [(lit ''s'', addressLine1), (lit ''c'', JStr c),
                                   (lit ''type'', JStr type)],
                   o_body = JUndefined\<rparr>))))"

definition findBestStore ::
  "builtins \<Rightarrow> env \<Rightarrow> jsval \<Rightarrow> jsval \<Rightarrow> jsval \<Rightarrow> jsval \<Rightarrow> jsstring \<Rightarrow> world
     \<Rightarrow> (error + jsstring \<times> jsval) \<times> world" where
  "findBestStore js ev addressLine1 city region postalCode serviceMethod s =
     (case locatorOptions js addressLine1 city region postalCode serviceMethod of
        Inl e \<Rightarrow> (Inl e, s)
      | Inr opts \<Rightarrow>
          (case dominosFetchJson js ev (lit ''/power/store-locator'') opts s of
             (Inl e, s1) \<Rightarrow> (Inl e, s1)
           | (Inr data, s1) \<Rightarrow> (chooseStore js data, s1)))"

section \<open>The quote action\<close>

text \<open>
  Lines 264 to 279 of \<open>quotePizzaOrder\<close>: the payload is normalised in this order, and
  the first failure ends the call. The outcome is the service method, the address, the
  phone, the email and the products.
\<close>

definition quoteInputs ::
  "builtins \<Rightarrow> jsval \<Rightarrow> error + jsstring \<times> jsval \<times> jsstring \<times> jsstring \<times> jsval list" where
  "quoteInputs js payload =
     bindE (normalizeServiceMethod js (getProp payload (lit ''serviceMethod''))) (\<lambda>serviceMethod.
     bindE (buildAddress js (getProp payload (lit ''addressLine1''))
              (getProp payload (lit ''addressLine2'')) (getProp payload (lit ''city''))
              (getProp payload (lit ''region'')) (getProp payload (lit ''postalCode''))) (\<lambda>address.
     bindE (assertString (getProp payload (lit ''phone'')) ''phone'') (\<lambda>phone.
     bindE (assertString (getProp payload (lit ''email'')) ''email'') (\<lambda>email.
     bindE (assertString (getProp payload (lit ''itemsJson'')) ''itemsJson'') (\<lambda>itemsJson.
     bindE (safeJsonParse js itemsJson ''itemsJson'') (\<lambda>items.
     bindE (buildProducts js items) (\<lambda>products.
       Inr (serviceMethod, address, phone, email, products))))))))"

text \<open>Lines 289 to 316: the order sent to validate-order.\<close>

definition orderPayload ::
  "jsval \<Rightarrow> jsstring \<Rightarrow> jsstring \<Rightarrow> jsstring \<Rightarrow> jsval list \<Rightarrow> jsstring \<Rightarrow> jsstring \<Rightarrow> jsval" where
  "orderPayload address email orderId phone products serviceMethod storeId =
     JObj [(lit ''Order'', JObj
       [(lit ''Address'', address),
        (lit ''Coupons'', JArr []),
        (lit ''CustomerID'', JStr []),
        (lit ''Email'', JStr email),
        (lit ''Extension'', JStr []),
        (lit ''FirstName'', JStr []),
        (lit ''LastName'', JStr []),
        (lit ''LanguageCode'', JStr (lit ''en'')),
        (lit ''OrderChannel'', JStr (lit ''OLO'')),
        (lit ''OrderID'', JStr orderId),
        (lit ''OrderMethod'', JStr (lit ''Web'')),
        (lit ''OrderTaker'', JNull),
        (lit ''Payments'', JArr []),
        (lit ''Phone'', JStr phone),
        (lit ''PhonePrefix'', JStr []),
        (lit ''Products'', JArr products),
        (lit ''ServiceMethod'', JStr serviceMethod),
        (lit ''SourceOrganizationURI'', JStr (lit ''order.dominos.com'')),
        (lit ''StoreID'', JStr storeId),
        (lit ''Tags'', JObj []),
        (lit ''Version'', JStr (lit ''1.0'')),
        (lit ''NoCombine'', JBool True),
        (lit ''Partners'', JObj []),
        (lit ''OrderInfoCollection'', JArr [])])]"

text \<open>\<^verbatim>\<open>crypto.randomUUID().replace(/-/g, '').slice(0, 20)\<close>; 45 is the hyphen.\<close>

definition orderIdOf :: "jsstring \<Rightarrow> jsstring" where
  "orderIdOf u = take 20 (filter (\<lambda>c. c \<noteq> 45) u)"

text \<open>
  What the action returns: \<open>Rejected status message details\<close> is the object with
  \<^verbatim>\<open>ok: false\<close> and \<^verbatim>\<open>step: 'validate-order'\<close>; \<open>Quoted orderToken quote\<close> the one with
  \<^verbatim>\<open>ok: true\<close> and the fixed message.
\<close>

datatype quote_result =
    Rejected jsval jsval jsval
  | Quoted jsstring summary

text \<open>Line 324: the test on the answer of validate-order.\<close>

definition validationFailed :: "jsval \<Rightarrow> bool" where
  "validationFailed validated =
     (truthy (getProp validated (lit ''Status'')) \<and>
      getProp validated (lit ''Status'') \<noteq> JNum (Fin 0) \<and>
      getProp validated (lit ''Status'') \<noteq> JStr (lit ''0''))"

definition quoteKey :: "jsstring \<Rightarrow> jsstring" where
  "quoteKey orderToken = lit ''pizza:quote:'' @ orderToken"

text \<open>\<open>now\<close> is what \<^verbatim>\<open>Date.now()\<close> returns in this invocation.\<close>

definition quotePizzaOrder ::
  "builtins \<Rightarrow> env \<Rightarrow> int \<Rightarrow> jsval \<Rightarrow> world \<Rightarrow> (error + quote_result) \<times> world" where
  "quotePizzaOrder js ev now payload s =
     (case quoteInputs js payload of
        Inl e \<Rightarrow> (Inl e, s)
      | Inr (serviceMethod, address, phone, email, products) \<Rightarrow>
     (case findBestStore js ev (getProp payload (lit ''addressLine1''))
             (getProp payload (lit ''city'')) (getProp payload (lit ''region''))
             (getProp payload (lit ''postalCode'')) serviceMethod s of
        (Inl e, s1) \<Rightarrow> (Inl e, s1)
      | (Inr (storeId, store), s1) \<Rightarrow>
     (case randomUUID ev s1 of (u, s2) \<Rightarrow>
     (case dominosFetchJson js ev (lit ''/power/validate-order'')
             (postOptions (orderPayload address email (orderIdOf u) phone products serviceMethod
                storeId)) s2 of
        (Inl e, s3) \<Rightarrow> (Inl e, s3)
      | (Inr validated, s3) \<Rightarrow>
          if validationFailed validated
          then (Inr (Rejected (getProp validated (lit ''Status''))
                       (js_or (getProp validated (lit ''Message''))
                          (JStr (lit ''Order validation failed.'')))
                       validated), s3)
          else
     (case dominosFetchJson js ev (lit ''/power/price-order'') (postOptions validated) s3 of
        (Inl e, s4) \<Rightarrow> (Inl e, s4)
      | (Inr priced, s4) \<Rightarrow>
     (case randomUUID ev s4 of (orderToken, s5) \<Rightarrow>
        let s6 = storage_set (quoteKey orderToken)
                   \<lparr>createdAt = now, q_storeId = storeId, q_serviceMethod = serviceMethod,
                    storeHint = JObj [(lit ''StoreID'', getProp store (lit ''StoreID'')),
                                      (lit ''Name'', getProp store (lit ''Name'')),
                                      (lit ''AddressDescription'',
                                       getProp store (lit ''AddressDescription''))],
                    pricedDraft = priced\<rparr> s5
        in case summarizeQuote priced of
             Inl e \<Rightarrow> (Inl e, s6)
           | Inr q \<Rightarrow> (Inr (Quoted orderToken q), s6)))))))"

section \<open>The place action\<close>

text \<open>\<open>Placed result\<close> is the returned object with \<^verbatim>\<open>ok: true\<close> and the fixed note.\<close>

datatype place_result = Placed jsval

definition placePizzaOrder ::
  "builtins \<Rightarrow> env \<Rightarrow> int \<Rightarrow> jsval \<Rightarrow> world \<Rightarrow> (error + place_result) \<times> world" where
  "placePizzaOrder js ev now payload s =
     (case assertString (getProp payload (lit ''orderToken'')) ''orderToken'' of
        Inl e \<Rightarrow> (Inl e, s)
      | Inr orderToken \<Rightarrow>
          if \<not> (getProp payload (lit ''confirm'') = JBool True)
          then (Inl (UserError ConfirmationRequired), s)
          else
     (case storage_get (quoteKey orderToken) s of
        (None, s1) \<Rightarrow> (Inl (UserError UnknownToken), s1)
      | (Some saved, s1) \<Rightarrow>
          if now - createdAt saved > QUOTE_TTL_MS
          then (Inl (UserError QuoteExpired), storage_delete (quoteKey orderToken) s1)
          else
     (case dominosFetchJson js ev (lit ''/power/place-order'') (postOptions (pricedDraft saved))
             s1 of
        (Inl e, s2) \<Rightarrow> (Inl e, s2)
      | (Inr placed, s2) \<Rightarrow>
          (Inr (Placed placed), storage_delete (quoteKey orderToken) s2))))"

section \<open>Notions of the specification\<close>

text \<open>
  The definitions of this section follow the words of the specification; the theorems
  compare them with the program.
\<close>

subsection \<open>Service method\<close>

text \<open>
  Two strings match without regard to letter case when their upper-case forms are the
  same.
\<close>

definition matchesIgnoringCase :: "builtins \<Rightarrow> jsstring \<Rightarrow> jsstring \<Rightarrow> bool" where
  "matchesIgnoringCase js s t = (toUpperCase js s = toUpperCase js t)"

subsection \<open>Quote summary\<close>

text \<open>
  The priority table of the total: the first field of the amounts object, in this order,
  that is present, respectively that holds a truthy value.
\<close>

definition amountFields :: "jsstring list" where
  "amountFields =
     [lit ''Customer'', lit ''Payment'', lit ''Order'', lit ''Total'', lit ''Amount'']"

definition firstPresent :: "jsval \<Rightarrow> jsstring list \<Rightarrow> jsval option" where
  "firstPresent amounts ks =
     map_option (getProp amounts) (find (\<lambda>k. map_of (ownProps amounts) k \<noteq> None) ks)"

definition firstTruthy :: "jsval \<Rightarrow> jsstring list \<Rightarrow> jsval option" where
  "firstTruthy amounts ks =
     map_option (getProp amounts) (find (\<lambda>k. truthy (getProp amounts k)) ks)"

text \<open>
  The order of a priced response, its products and its amounts object; an order or an
  amounts object that is missing (or falsy) is empty, products that are no array are none.
\<close>

definition orderOf :: "jsval \<Rightarrow> jsval" where
  "orderOf priced =
     (if truthy (getProp priced (lit ''Order'')) then getProp priced (lit ''Order'') else JObj [])"

definition productsOf :: "jsval \<Rightarrow> jsval list" where
  "productsOf priced =
     (case getProp (orderOf priced) (lit ''Products'') of JArr ps \<Rightarrow> ps | _ \<Rightarrow> [])"

definition amountsOf :: "jsval \<Rightarrow> jsval" where
  "amountsOf priced =
     (if truthy (getProp (orderOf priced) (lit ''Amounts''))
      then getProp (orderOf priced) (lit ''Amounts'') else JObj [])"

subsection \<open>Store resolution\<close>







subsection \<open>HTTP client\<close>

text \<open>
  A response indicates JSON when its content type contains \<^verbatim>\<open>application/json\<close>. The
  body of a response is read as text; it is parsed when it is not empty and the response
  indicates JSON (a failure to parse is an error of its own), it is the raw text when it
  is not empty otherwise, and \<^verbatim>\<open>null\<close> when it is empty.
\<close>

definition indicatesJson :: "response \<Rightarrow> bool" where
  "indicatesJson res =
     (case res_contentType res of
        None \<Rightarrow> False
      | Some ct \<Rightarrow> sublist (lit ''application/json'') ct)"

definition parsedBody :: "builtins \<Rightarrow> response \<Rightarrow> jsstring + jsval" where
  "parsedBody js res =
     (if res_text res = [] then Inr JNull
      else if indicatesJson res then parseJSON js (res_text res)
      else Inr (JStr (res_text res)))"

text \<open>
  The retry policy. \<open>retrySchedule rq ds\<close> is what a call does to the network: an attempt,
  then for every delay of \<open>ds\<close> a pause and another attempt. A retryable failure is a
  response whose body could be read, that is no success, and whose status is 429 or 5xx.
  \<open>finalResult\<close> is what the call makes of its last response: the body of a success, and
  for a failure the error with its status, its status text and its parsed body.
\<close>

fun retrySchedule :: "request \<Rightarrow> int list \<Rightarrow> event list" where
  "retrySchedule rq [] = [Fetch rq]"
| "retrySchedule rq (d # ds) = Fetch rq # Sleep d # retrySchedule rq ds"

definition retryableFailure :: "builtins \<Rightarrow> outcome \<Rightarrow> bool" where
  "retryableFailure js oc =
     (case oc of
        Rejects \<Rightarrow> False
      | Responds res \<Rightarrow>
          (case parsedBody js res of
             Inl e \<Rightarrow> False
           | Inr data \<Rightarrow>
               \<not> res_ok res \<and>
               (res_status res = 429 \<or> (500 \<le> res_status res \<and> res_status res \<le> 599))))"

definition finalResult :: "builtins \<Rightarrow> outcome \<Rightarrow> error + jsval" where
  "finalResult js oc =
     (case oc of
        Rejects \<Rightarrow> Inl FetchRejected
      | Responds res \<Rightarrow>
          (case parsedBody js res of
             Inl e \<Rightarrow> Inl (UserError (InvalidJson ''Domino response'' e))
           | Inr data \<Rightarrow>
               if res_ok res then Inr data
               else Inl (RequestFailed (res_status res) (res_statusText res) data)))"



subsection \<open>Quote inputs\<close>









text \<open>The writes to the storage among a list of effects.\<close>

fun storageWrite :: "event \<Rightarrow> bool" where
  "storageWrite (StorageSet k q) = True"
| "storageWrite (StorageDelete k) = True"
| "storageWrite e = False"

section \<open>Scenarios\<close>

text \<open>
  Concrete hosts, surroundings and payloads, on which the theorems are run. The
  texts of the bodies stand for JSON documents; \<open>scenarioHost\<close> parses them to the values
  they stand for and refuses every other text. It upper-cases the ASCII letters and
  multiplies exactly, which is what a JavaScript host does on the strings and numbers of
  the scenarios; no scenario converts between a number and a string, so these two
  functions are never applied.
\<close>

definition itemsText :: jsstring where
  "itemsText = lit ''[{Code:12SCREEN,Qty:1}]''"

definition storesText :: jsstring where
  "storesText = lit ''{Stores:[{StoreID:3679,IsOnlineNow:true,IsOpen:true}]}''"

definition acceptedText :: jsstring where
  "acceptedText = lit ''{Status:0,Order:{StoreID:3679}}''"

definition refusedText :: jsstring where
  "refusedText = lit ''{Status:1,Message:Address not serviceable}''"

definition blankStatusText :: jsstring where
  "blankStatusText = lit ''{Status:,Order:{StoreID:3679}}''"

definition pricedText :: jsstring where
  "pricedText = lit ''{Order:{StoreID:3679,ServiceMethod:Delivery,Amounts:{Customer:12.34}}}''"

definition placedText :: jsstring where
  "placedText = lit ''{OrderID:ABC123}''"

definition overloadedText :: jsstring where
  "overloadedText = lit ''{error:overloaded}''"

definition fourStoresText :: jsstring where
  "fourStoresText = lit ''{Stores:[offline,online,open,open]}''"

definition twoStoresText :: jsstring where
  "twoStoresText = lit ''{Stores:[offline,online]}''"

definition offlineStoresText :: jsstring where
  "offlineStoresText = lit ''{Stores:[offline,offline]}''"

definition serviceStoresText :: jsstring where
  "serviceStoresText = lit ''{Stores:[service,open]}''"

definition oddQtyText :: jsstring where
  "oddQtyText = lit ''[{Code:12SCREEN,Qty:{toString:1}}]''"

definition storesValue :: jsval where
  "storesValue = JObj [(lit ''Stores'', JArr [JObj [(lit ''StoreID'', JStr (lit ''3679'')),
     (lit ''IsOnlineNow'', JBool True), (lit ''IsOpen'', JBool True)]])]"

definition pricedValue :: jsval where
  "pricedValue = JObj [(lit ''Order'', JObj [(lit ''StoreID'', JStr (lit ''3679'')),
     (lit ''ServiceMethod'', JStr (lit ''Delivery'')),
     (lit ''Amounts'', JObj [(lit ''Customer'', JNum (Fin (1234 / 100)))])])]"

definition refusedValue :: jsval where
  "refusedValue = JObj [(lit ''Status'', JNum (Fin 1)),
     (lit ''Message'', JStr (lit ''Address not serviceable''))]"

definition blankStatusValue :: jsval where
  "blankStatusValue = JObj [(lit ''Status'', JStr []),
     (lit ''Order'', JObj [(lit ''StoreID'', JStr (lit ''3679''))])]"

definition overloadedValue :: jsval where
  "overloadedValue = JObj [(lit ''error'', JStr (lit ''overloaded''))]"

text \<open>
  Candidates of the store locator: one that is open but not online, one that is online
  with no word on being open, two that are online and open, and one that is online, says
  it is not open and carries a \<open>ServiceIsOpen\<close> object that says so for both services.
\<close>

definition offlineStore :: jsval where
  "offlineStore = JObj [(lit ''StoreID'', JStr (lit ''1001'')),
     (lit ''IsOnlineNow'', JBool False), (lit ''IsOpen'', JBool True)]"

definition onlineStore :: jsval where
  "onlineStore = JObj [(lit ''StoreID'', JStr (lit ''1002'')), (lit ''IsOnlineNow'', JBool True)]"

definition openStore :: jsval where
  "openStore = JObj [(lit ''StoreID'', JStr (lit ''1003'')),
     (lit ''IsOnlineNow'', JBool True), (lit ''IsOpen'', JBool True)]"

definition otherOpenStore :: jsval where
  "otherOpenStore = JObj [(lit ''StoreID'', JStr (lit ''1004'')),
     (lit ''IsOnlineNow'', JBool True), (lit ''IsOpen'', JBool True)]"

definition serviceStore :: jsval where
  "serviceStore = JObj [(lit ''StoreID'', JStr (lit ''2001'')),
     (lit ''IsOnlineNow'', JBool True), (lit ''IsOpen'', JBool False),
     (lit ''ServiceIsOpen'',
      JObj [(lit ''Delivery'', JBool False), (lit ''Carryout'', JBool False)])]"

definition scenarioHost :: builtins where
  "scenarioHost =
     \<lparr>parseJSON = (\<lambda>t.
        if t = itemsText
          then Inr (JArr [JObj [(lit ''Code'', JStr (lit ''12SCREEN'')),
                                (lit ''Qty'', JNum (Fin 1))]])
        else if t = storesText then Inr storesValue
        else if t = acceptedText
          then Inr (JObj [(lit ''Status'', JNum (Fin 0)),
                          (lit ''Order'', JObj [(lit ''StoreID'', JStr (lit ''3679''))])])
        else if t = refusedText then Inr refusedValue
        else if t = blankStatusText then Inr blankStatusValue
        else if t = pricedText then Inr pricedValue
        else if t = placedText then Inr (JObj [(lit ''OrderID'', JStr (lit ''ABC123''))])
        else if t = overloadedText then Inr overloadedValue
        else if t = fourStoresText
          then Inr (JObj [(lit ''Stores'',
                 JArr [offlineStore, onlineStore, openStore, otherOpenStore])])
        else if t = twoStoresText
          then Inr (JObj [(lit ''Stores'', JArr [offlineStore, onlineStore])])
        else if t = offlineStoresText
          then Inr (JObj [(lit ''Stores'', JArr [offlineStore, offlineStore])])
        else if t = serviceStoresText
          then Inr (JObj [(lit ''Stores'', JArr [serviceStore, openStore])])
        else if t = oddQtyText
          then Inr (JArr [JObj [(lit ''Code'', JStr (lit ''12SCREEN'')),
                                (lit ''Qty'', JObj [(lit ''toString'', JNum (Fin 1))])]])
        else Inl (lit ''SyntaxError'')),
      numToString = (\<lambda>n. lit ''0''),
      stringToNumber = (\<lambda>t. NaN),
      toUpperCase = map canonicalize,
      multiply = (\<lambda>x y. x * y)\<rparr>"

definition jsonResponse :: "bool \<Rightarrow> int \<Rightarrow> jsstring \<Rightarrow> jsstring \<Rightarrow> outcome" where
  "jsonResponse success status statusText body =
     Responds \<lparr>res_ok = success, res_status = status, res_statusText = statusText,
               res_contentType = Some (lit ''application/json; charset=utf-8''),
               res_text = body\<rparr>"

definition plainResponse :: "bool \<Rightarrow> int \<Rightarrow> jsstring \<Rightarrow> jsstring \<Rightarrow> outcome" where
  "plainResponse success status statusText body =
     Responds \<lparr>res_ok = success, res_status = status, res_statusText = statusText,
               res_contentType = Some (lit ''text/plain''), res_text = body\<rparr>"

definition emptyWorld :: world where
  "emptyWorld = \<lparr>kv = Map.empty, trace = [], fetched = 0, rolled = 0, minted = 0\<rparr>"

definition quotePayload :: jsval where
  "quotePayload = JObj
     [(lit ''addressLine1'', JStr (lit ''93 Monitor St'')), (lit ''city'', JStr (lit ''Brooklyn'')),
      (lit ''region'', JStr (lit ''NY'')), (lit ''postalCode'', JStr (lit ''11222'')),
      (lit ''phone'', JStr (lit ''5551112222'')), (lit ''email'', JStr (lit ''test@example.com'')),
      (lit ''itemsJson'', JStr itemsText), (lit ''serviceMethod'', JStr (lit ''DELIVERY''))]"

text \<open>
  Priced responses: one with a zero Customer before a Payment, one with a zero Payment
  alone, and a basket of two products whose amounts list Customer last.
\<close>

definition zeroCustomer :: jsval where
  "zeroCustomer = JObj [(lit ''Order'', JObj [(lit ''Amounts'',
     JObj [(lit ''Customer'', JNum (Fin 0)), (lit ''Payment'', JNum (Fin (25 / 2)))])])]"

definition zeroPayment :: jsval where
  "zeroPayment = JObj [(lit ''Order'', JObj [(lit ''Amounts'',
     JObj [(lit ''Payment'', JNum (Fin 0))])])]"

definition basketValue :: jsval where
  "basketValue = JObj [(lit ''Order'', JObj
     [(lit ''StoreID'', JStr (lit ''3679'')),
      (lit ''ServiceMethod'', JStr (lit ''Carryout'')),
      (lit ''Products'',
       JArr [JObj [(lit ''Code'', JStr (lit ''12SCREEN'')), (lit ''Qty'', JNum (Fin 1))],
             JObj [(lit ''Code'', JStr (lit ''20BCOKE'')), (lit ''Qty'', JNum (Fin 2))]]),
      (lit ''Amounts'',
       JObj [(lit ''Amount'', JNum (Fin 30)), (lit ''Total'', JNum (Fin (51 / 2))),
             (lit ''Payment'', JNum (Fin 0)), (lit ''Order'', JNum (Fin 22)),
             (lit ''Customer'', JNull)])])]"

text \<open>
  Surroundings that answer the calls to \<^verbatim>\<open>fetch\<close> from a script (and reject once it is
  used up), draw \<open>1/2\<close>, \<open>1/4\<close> and then \<open>3/4\<close> from \<^verbatim>\<open>Math.random\<close>, and mint two UUIDs.
\<close>

definition firstUuid :: jsstring where
  "firstUuid = lit ''0f8fad5b-d9cb-469f-a165-70867728950e''"

definition otherUuid :: jsstring where
  "otherUuid = lit ''7c9e6679-7425-40de-944b-e07fc1f90ae7''"

definition scriptedEnv :: "outcome list \<Rightarrow> env" where
  "scriptedEnv script =
     \<lparr>upstream = (\<lambda>n. if n < length script then script ! n else Rejects),
      random = (\<lambda>n. if n = 0 then 1 / 2 else if n = 1 then 1 / 4 else 3 / 4),
      uuid = (\<lambda>n. if n = 0 then firstUuid else otherUuid)\<rparr>"


text \<open>A stored quote, a world that holds it under the token \<open>otherUuid\<close>, and payloads.\<close>

definition storedQuote :: quote where
  "storedQuote =
     \<lparr>createdAt = 0, q_storeId = lit ''3679'', q_serviceMethod = lit ''Delivery'',
      storeHint = JObj [(lit ''StoreID'', JStr (lit ''3679'')), (lit ''Name'', JUndefined),
                        (lit ''AddressDescription'', JUndefined)],
      pricedDraft = pricedValue\<rparr>"

definition quotedWorld :: world where
  "quotedWorld =
     \<lparr>kv = [quoteKey otherUuid \<mapsto> storedQuote], trace = [], fetched = 0, rolled = 0, minted = 0\<rparr>"

definition placePayload :: jsval where
  "placePayload = JObj [(lit ''orderToken'', JStr otherUuid), (lit ''confirm'', JBool True)]"

definition unconfirmedPayload :: jsval where
  "unconfirmedPayload =
     JObj [(lit ''orderToken'', JStr otherUuid), (lit ''confirm'', JStr (lit ''true''))]"

definition tokenlessPayload :: jsval where
  "tokenlessPayload = JObj [(lit ''confirm'', JBool False)]"





definition refusingScript :: "outcome list" where
  "refusingScript =
     [jsonResponse True 200 (lit ''OK'') storesText,
      jsonResponse True 200 (lit ''OK'') refusedText,
      jsonResponse True 200 (lit ''OK'') pricedText]"

definition blankStatusScript :: "outcome list" where
  "blankStatusScript =
     [jsonResponse True 200 (lit ''OK'') storesText,
      jsonResponse True 200 (lit ''OK'') blankStatusText,
      jsonResponse True 200 (lit ''OK'') pricedText]"

section \<open>Properties of the conversions\<close>

text \<open>A conversion to a string fails with a \<^verbatim>\<open>TypeError\<close> only.\<close>

lemma sequenceE_error:
  "sequenceE rs = Inl e \<Longrightarrow> \<exists>r\<in>set rs. r = Inl e"
  by (induction rs arbitrary: e) (auto simp: bindE_def split: sum.splits)

lemma js_String_error: "js_String js v = Inl e \<Longrightarrow> e = TypeError"
proof (induction js v arbitrary: e rule: js_String.induct)
  case (6 js xs)
  then show ?case
    by (auto simp: bindE_def split: sum.splits if_splits dest!: sequenceE_error)
qed (auto split: if_splits)

section \<open>Properties of the service method\<close>

lemmas string_eval = lit_def js_trim_def isWhite_def canonicalize_def

lemmas js_eval =
  js_or_def js_and_def js_coalesce_def nullish_def bindE_def assertString_def
  assertOptionalString_def string_eval

text \<open>
  Claim C9, as amended. On a host that leaves the words \<open>DELIVERY\<close> and \<open>CARRYOUT\<close>
  as they are when it upper-cases them: a falsy input (absent, \<^verbatim>\<open>null\<close>, the empty
  string, \<open>0\<close>, \<open>NaN\<close>, \<^verbatim>\<open>false\<close>) stands for \<open>DELIVERY\<close>; an input that cannot be
  turned into a string fails with a \<^verbatim>\<open>TypeError\<close>; else the string of the input is
  trimmed, a case-insensitive match with \<open>DELIVERY\<close> gives \<open>Delivery\<close>, one with
  \<open>CARRYOUT\<close> gives \<open>Carryout\<close>, and every other input fails with the validation error
  that names the trimmed input in upper case.
\<close>

theorem normalizeServiceMethod_matches:
  assumes "toUpperCase js (lit ''DELIVERY'') = lit ''DELIVERY''"
    and "toUpperCase js (lit ''CARRYOUT'') = lit ''CARRYOUT''"
  shows "normalizeServiceMethod js v =
     (case js_String js (if truthy v then v else JStr (lit ''DELIVERY'')) of
        Inl e \<Rightarrow> Inl TypeError
      | Inr t \<Rightarrow>
          let s = js_trim t
          in if matchesIgnoringCase js s (lit ''DELIVERY'') then Inr (lit ''Delivery'')
             else if matchesIgnoringCase js s (lit ''CARRYOUT'') then Inr (lit ''Carryout'')
             else Inl (UserError (BadServiceMethod (toUpperCase js s))))"
proof (cases "js_String js (if truthy v then v else JStr (lit ''DELIVERY''))")
  case (Inl e)
  then have "e = TypeError" by (rule js_String_error)
  with Inl show ?thesis
    by (simp add: normalizeServiceMethod_def js_or_def bindE_def)
next
  case (Inr t)
  with assms show ?thesis
    by (simp add: normalizeServiceMethod_def js_or_def bindE_def matchesIgnoringCase_def Let_def)
qed

theorem normalizeServiceMethod_matches_witness:
  "toUpperCase scenarioHost (lit ''DELIVERY'') = lit ''DELIVERY'' \<and>
   toUpperCase scenarioHost (lit ''CARRYOUT'') = lit ''CARRYOUT'' \<and>
   normalizeServiceMethod scenarioHost (JStr (lit '' carryOut '')) = Inr (lit ''Carryout'') \<and>
   normalizeServiceMethod scenarioHost (JStr (160 # lit ''delivery'')) = Inr (lit ''Delivery'') \<and>
   normalizeServiceMethod scenarioHost (JStr (lit ''pickup''))
     = Inl (UserError (BadServiceMethod (lit ''PICKUP''))) \<and>
   normalizeServiceMethod scenarioHost JNull = Inr (lit ''Delivery'') \<and>
   normalizeServiceMethod scenarioHost (JObj [(lit ''toString'', JNum (Fin 1))]) = Inl TypeError"
proof -
  have d: "toUpperCase scenarioHost (lit ''DELIVERY'') = lit ''DELIVERY''"
    by (simp add: scenarioHost_def string_eval)
  have c: "toUpperCase scenarioHost (lit ''CARRYOUT'') = lit ''CARRYOUT''"
    by (simp add: scenarioHost_def string_eval)
  from normalizeServiceMethod_matches [OF d c, of "JStr (lit '' carryOut '')"]
    normalizeServiceMethod_matches [OF d c, of "JStr (160 # lit ''delivery'')"]
    normalizeServiceMethod_matches [OF d c, of "JStr (lit ''pickup'')"]
    normalizeServiceMethod_matches [OF d c, of JNull]
    normalizeServiceMethod_matches [OF d c, of "JObj [(lit ''toString'', JNum (Fin 1))]"]
    d c
  show ?thesis
    by (simp add: matchesIgnoringCase_def scenarioHost_def string_eval)
qed

text \<open>
  Claim C9 as stated fails: the empty string matches neither word and is still
  answered with \<open>Delivery\<close>, not with a validation error.
\<close>

theorem normalizeServiceMethod_default_counterexample:
  "\<not> matchesIgnoringCase scenarioHost (js_trim []) (lit ''DELIVERY'') \<and>
   \<not> matchesIgnoringCase scenarioHost (js_trim []) (lit ''CARRYOUT'') \<and>
   normalizeServiceMethod scenarioHost (JStr []) = Inr (lit ''Delivery'')"
  by (simp add: normalizeServiceMethod_def matchesIgnoringCase_def scenarioHost_def js_eval)

section \<open>Properties of the quote summary\<close>

lemma summarizeItems_objects:
  "\<not> list_ex nullish ps \<Longrightarrow>
   summarizeItems ps = Inr (map (\<lambda>p. (getProp p (lit ''Code''), getProp p (lit ''Qty''))) ps)"
  by (induction ps) (simp_all add: bindE_def)

lemma js_or_chain_find:
  "js_or (js_or (js_or (js_or (js_or (getProp a (lit ''Customer'')) (getProp a (lit ''Payment'')))
     (getProp a (lit ''Order''))) (getProp a (lit ''Total''))) (getProp a (lit ''Amount'')))
     (getProp a (lit ''Customer''))
   = (case firstTruthy a amountFields of Some v \<Rightarrow> v | None \<Rightarrow> getProp a (lit ''Customer''))"
  by (simp add: js_or_def firstTruthy_def amountFields_def)

lemma orderOf_or: "js_or (getProp priced (lit ''Order'')) (JObj []) = orderOf priced"
  by (simp add: orderOf_def js_or_def)

lemma amountsOf_or: "js_or (getProp (orderOf priced) (lit ''Amounts'')) (JObj []) = amountsOf priced"
  by (simp add: amountsOf_def js_or_def)

lemma getProp_falsy: "\<not> truthy v \<Longrightarrow> getProp v k = JUndefined"
  by (cases v) simp_all

lemma amounts_fallback:
  "getProp (getProp (getProp priced (lit ''Order'')) (lit ''Amounts'')) (lit ''Customer'')
   = getProp (amountsOf priced) (lit ''Customer'')"
proof (cases "truthy (getProp priced (lit ''Order''))")
  case True
  then have o: "orderOf priced = getProp priced (lit ''Order'')" by (simp add: orderOf_def)
  show ?thesis
  proof (cases "truthy (getProp (getProp priced (lit ''Order'')) (lit ''Amounts''))")
    case True
    then show ?thesis by (simp add: amountsOf_def o)
  next
    case False
    then show ?thesis by (simp add: amountsOf_def o getProp_falsy)
  qed
next
  case False
  then have "getProp (getProp priced (lit ''Order'')) (lit ''Amounts'') = JUndefined"
    by (rule getProp_falsy)
  with False show ?thesis by (simp add: amountsOf_def orderOf_def)
qed

lemma firstTruthy_truthy: "firstTruthy a ks = Some v \<Longrightarrow> truthy v"
  by (auto simp: firstTruthy_def find_Some_iff)

text \<open>
  Claim C8, as amended. For a priced response whose products hold no \<^verbatim>\<open>null\<close>,
  \<open>summarizeQuote\<close> returns the store id, the service method, the (code, qty) pairs of
  the order's products, the amounts object, and as total the first truthy value among the
  fields Customer, Payment, Order, Total, Amount of the amounts object, in this order; when
  none is truthy the total is the value of Customer, or \<^verbatim>\<open>null\<close> when that is absent
  or \<^verbatim>\<open>null\<close>. The total is \<^verbatim>\<open>null\<close> exactly when no field is truthy and Customer
  is absent or \<^verbatim>\<open>null\<close>.
\<close>

theorem summarizeQuote_total:
  assumes "\<not> list_ex nullish (productsOf priced)"
  shows "\<exists>q. summarizeQuote priced = Inr q \<and>
           sm_storeId q = getProp (orderOf priced) (lit ''StoreID'') \<and>
           sm_serviceMethod q = getProp (orderOf priced) (lit ''ServiceMethod'') \<and>
           sm_items q =
             map (\<lambda>p. (getProp p (lit ''Code''), getProp p (lit ''Qty''))) (productsOf priced) \<and>
           sm_totals q = amountsOf priced \<and>
           sm_total q =
             (case firstTruthy (amountsOf priced) amountFields of
                Some v \<Rightarrow> v
              | None \<Rightarrow> js_coalesce (getProp (amountsOf priced) (lit ''Customer'')) JNull) \<and>
           (sm_total q = JNull \<longleftrightarrow>
              firstTruthy (amountsOf priced) amountFields = None \<and>
              nullish (getProp (amountsOf priced) (lit ''Customer'')))"
proof -
  let ?a = "amountsOf priced"
  let ?t = "case firstTruthy ?a amountFields of
              Some v \<Rightarrow> v | None \<Rightarrow> getProp ?a (lit ''Customer'')"
  have items: "summarizeItems (productsOf priced)
      = Inr (map (\<lambda>p. (getProp p (lit ''Code''), getProp p (lit ''Qty''))) (productsOf priced))"
    using assms by (rule summarizeItems_objects)
  have eq: "summarizeQuote priced =
      Inr \<lparr>sm_storeId = getProp (orderOf priced) (lit ''StoreID''),
           sm_serviceMethod = getProp (orderOf priced) (lit ''ServiceMethod''),
           sm_items =
             map (\<lambda>p. (getProp p (lit ''Code''), getProp p (lit ''Qty''))) (productsOf priced),
           sm_totals = ?a,
           sm_total = js_coalesce ?t JNull\<rparr>"
    unfolding summarizeQuote_def Let_def orderOf_or amountsOf_or
    using items js_or_chain_find [of ?a] amounts_fallback [of priced]
    by (simp add: bindE_def productsOf_def [symmetric])
  have total: "js_coalesce ?t JNull =
      (case firstTruthy ?a amountFields of
         Some v \<Rightarrow> v | None \<Rightarrow> js_coalesce (getProp ?a (lit ''Customer'')) JNull)"
    using firstTruthy_truthy [of ?a amountFields]
    by (cases "firstTruthy ?a amountFields") (auto simp: js_coalesce_def nullish_def)
  have null: "js_coalesce ?t JNull = JNull \<longleftrightarrow>
      firstTruthy ?a amountFields = None \<and> nullish (getProp ?a (lit ''Customer''))"
    using firstTruthy_truthy [of ?a amountFields]
    by (cases "firstTruthy ?a amountFields") (auto simp: js_coalesce_def nullish_def)
  show ?thesis using eq total null by simp
qed

lemmas summary_eval =
  summarizeQuote_def js_or_def js_coalesce_def nullish_def bindE_def orderOf_def productsOf_def
  amountsOf_def firstTruthy_def firstPresent_def amountFields_def Let_def lit_def

theorem summarizeQuote_total_witness:
  "\<not> list_ex nullish (productsOf basketValue) \<and>
   length (productsOf basketValue) = 2 \<and>
   summarizeQuote basketValue =
     Inr \<lparr>sm_storeId = JStr (lit ''3679''), sm_serviceMethod = JStr (lit ''Carryout''),
          sm_items = [(JStr (lit ''12SCREEN''), JNum (Fin 1)), (JStr (lit ''20BCOKE''), JNum (Fin 2))],
          sm_totals = amountsOf basketValue,
          sm_total = JNum (Fin 22)\<rparr>"
proof -
  have p: "\<not> list_ex nullish (productsOf basketValue)"
    by (simp add: basketValue_def summary_eval)
  from summarizeQuote_total [OF p] obtain q where
    q: "summarizeQuote basketValue = Inr q"
      "sm_storeId q = getProp (orderOf basketValue) (lit ''StoreID'')"
      "sm_serviceMethod q = getProp (orderOf basketValue) (lit ''ServiceMethod'')"
      "sm_items q = map (\<lambda>p. (getProp p (lit ''Code''), getProp p (lit ''Qty'')))
         (productsOf basketValue)"
      "sm_totals q = amountsOf basketValue"
      "sm_total q = (case firstTruthy (amountsOf basketValue) amountFields of
                Some v \<Rightarrow> v
              | None \<Rightarrow> js_coalesce (getProp (amountsOf basketValue) (lit ''Customer'')) JNull)"
    by blast
  have "q = \<lparr>sm_storeId = JStr (lit ''3679''), sm_serviceMethod = JStr (lit ''Carryout''),
          sm_items = [(JStr (lit ''12SCREEN''), JNum (Fin 1)), (JStr (lit ''20BCOKE''), JNum (Fin 2))],
          sm_totals = amountsOf basketValue,
          sm_total = JNum (Fin 22)\<rparr>"
    using q(2-6) by (cases q) (simp add: basketValue_def summary_eval)
  with q(1) p show ?thesis
    by (simp add: basketValue_def productsOf_def orderOf_def lit_def)
qed

text \<open>
  Claim C8 as stated fails: with Customer \<open>0\<close> and Payment \<open>12.5\<close> the first present
  value is \<open>0\<close> and the total is \<open>12.5\<close>; with Payment \<open>0\<close> alone a field is present and
  the total is \<^verbatim>\<open>null\<close>.
\<close>

theorem summarizeQuote_present_counterexample:
  "firstPresent (amountsOf zeroCustomer) amountFields = Some (JNum (Fin 0)) \<and>
   map_sum id sm_total (summarizeQuote zeroCustomer) = Inr (JNum (Fin (25 / 2))) \<and>
   firstPresent (amountsOf zeroPayment) amountFields = Some (JNum (Fin 0)) \<and>
   map_sum id sm_total (summarizeQuote zeroPayment) = Inr JNull"
  by (simp add: zeroCustomer_def zeroPayment_def summary_eval)

section \<open>Properties of the HTTP client\<close>

declare attempts.simps [simp del]

lemma js_includes_sublist: "js_includes s sub \<longleftrightarrow> sublist sub s"
  by (induction s) (simp_all add: sublist_Cons_right)

lemma responseData_parsedBody:
  "responseData js res =
     (case parsedBody js res of
        Inl e \<Rightarrow> Inl (UserError (InvalidJson ''Domino response'' e))
      | Inr data \<Rightarrow> Inr data)"
  by (cases "res_contentType res")
    (auto simp: responseData_def parsedBody_def indicatesJson_def safeJsonParse_def Let_def
      js_includes_sublist lit_def split: sum.splits)

lemma map_upt_shift: "f 0 # map (\<lambda>i. f (Suc i)) [0..<k] = map f [0..<Suc k]"
  by (induction k) simp_all

lemma attempts_shape:
  "1 \<le> a \<Longrightarrow> a \<le> maxAttempts \<Longrightarrow> attempts js ev rq a le s = (r, s') \<Longrightarrow>
   \<exists>k. a + k \<le> maxAttempts \<and>
       trace s' = trace s @ retrySchedule rq
         (map (\<lambda>i. backoff (a + i) + jitter js (random ev (rolled s + i))) [0..<k]) \<and>
       fetched s' = fetched s + k + 1 \<and> rolled s' = rolled s + k \<and>
       kv s' = kv s \<and> minted s' = minted s \<and>
       (\<forall>i<k. retryableFailure js (upstream ev (fetched s + i))) \<and>
       (a + k = maxAttempts \<or> \<not> retryableFailure js (upstream ev (fetched s + k))) \<and>
       r = finalResult js (upstream ev (fetched s + k))"
proof (induction "maxAttempts - a" arbitrary: a le s)
  case 0
  then have a: "a = maxAttempts" by simp
  from "0.prems"(3) show ?case
    apply (subst (asm) attempts.simps)
    apply (rule exI [of _ 0])
    apply (auto simp: a fetch_def retryableFailure_def finalResult_def retryable_def
        responseData_parsedBody split: outcome.splits sum.splits if_splits)
    done
next
  case (Suc n)
  then have lt: "a < maxAttempts" by simp
  show ?case
  proof (cases "retryableFailure js (upstream ev (fetched s))")
    case False
    from Suc.prems(2,3) False show ?thesis
      apply (subst (asm) attempts.simps)
      apply (rule exI [of _ 0])
      apply (auto simp: fetch_def retryableFailure_def finalResult_def retryable_def
          responseData_parsedBody split: outcome.splits sum.splits if_splits)
      done
  next
    case True
    then obtain res data where res: "upstream ev (fetched s) = Responds res"
      and data: "responseData js res = Inr data" and nok: "\<not> res_ok res"
      and rt: "retryable (res_status res)"
      by (auto simp: retryableFailure_def retryable_def responseData_parsedBody
          split: outcome.splits sum.splits)
    define d where "d = backoff a + jitter js (random ev (rolled s))"
    define s2 where "s2 = setTimeout d (snd (mathRandom ev (snd (fetch ev rq s))))"
    have s2: "trace s2 = trace s @ [Fetch rq, Sleep d]" "fetched s2 = Suc (fetched s)"
      "rolled s2 = Suc (rolled s)" "kv s2 = kv s" "minted s2 = minted s"
      by (simp_all add: s2_def setTimeout_def mathRandom_def fetch_def)
    have step: "attempts js ev rq a le s =
        attempts js ev rq (a + 1) (Some (RequestFailed (res_status res) (res_statusText res) data)) s2"
      using lt res data nok rt
      by (subst attempts.simps)
        (simp add: fetch_def mathRandom_def s2_def d_def)
    have n: "n = maxAttempts - (a + 1)" using Suc.hyps(2) by simp
    from Suc.hyps(1) [OF n, of _ s2] Suc.prems lt step
    obtain k where k: "a + 1 + k \<le> maxAttempts"
      "trace s' = trace s2 @ retrySchedule rq
         (map (\<lambda>i. backoff (a + 1 + i) + jitter js (random ev (rolled s2 + i))) [0..<k])"
      "fetched s' = fetched s2 + k + 1" "rolled s' = rolled s2 + k"
      "kv s' = kv s2" "minted s' = minted s2"
      "\<forall>i<k. retryableFailure js (upstream ev (fetched s2 + i))"
      "a + 1 + k = maxAttempts \<or> \<not> retryableFailure js (upstream ev (fetched s2 + k))"
      "r = finalResult js (upstream ev (fetched s2 + k))"
      by auto
    have "map (\<lambda>i. backoff (a + i) + jitter js (random ev (rolled s + i))) [0..<Suc k] =
        d # map (\<lambda>i. backoff (a + 1 + i) + jitter js (random ev (rolled s2 + i))) [0..<k]"
      unfolding d_def
      using map_upt_shift [of "\<lambda>i. backoff (a + i) + jitter js (random ev (rolled s + i))" k]
      by (simp add: s2 del: upt_Suc)
    then have sched: "trace s' = trace s @ retrySchedule rq
         (map (\<lambda>i. backoff (a + i) + jitter js (random ev (rolled s + i))) [0..<Suc k])"
      using k(2) by (simp add: s2 del: upt_Suc)
    have all: "\<forall>i<Suc k. retryableFailure js (upstream ev (fetched s + i))"
    proof (intro allI impI)
      fix i assume "i < Suc k"
      show "retryableFailure js (upstream ev (fetched s + i))"
      proof (cases i)
        case 0
        with True show ?thesis by simp
      next
        case (Suc j)
        with \<open>i < Suc k\<close> k(7) show ?thesis by (simp add: s2)
      qed
    qed
    show ?thesis
      apply (rule exI [of _ "Suc k"])
      using k sched all by (simp add: s2 del: upt_Suc)
  qed
qed






lemmas text_eval =
  itemsText_def storesText_def acceptedText_def refusedText_def blankStatusText_def
  pricedText_def placedText_def overloadedText_def fourStoresText_def twoStoresText_def
  offlineStoresText_def serviceStoresText_def oddQtyText_def

lemmas world_eval =
  dominosFetchJson_def buildRequest_def fetch_def mathRandom_def setTimeout_def randomUUID_def
  storage_get_def storage_set_def storage_delete_def responseData_def safeJsonParse_def
  retryable_def backoff_def jitter_def maxAttempts_def nullish_def DOMINOS_BASE_def
  scriptedEnv_def jsonResponse_def plainResponse_def scenarioHost_def emptyWorld_def
  postOptions_def bindE_def lit_def Let_def


section \<open>Properties of store resolution\<close>












section \<open>Properties of the place action\<close>

text \<open>
  Claim C2, as amended. A placement call whose \<open>confirm\<close> is anything but the literal
  \<^verbatim>\<open>true\<close> fails and leaves the world as it was: nothing is read from or deleted in
  the storage and no network call is made. The failure is the confirmation-required error
  when \<open>orderToken\<close> is a non-blank string; when it is not, the call has failed before
  with the validation error for \<open>orderToken\<close>.
\<close>

theorem placePizzaOrder_unconfirmed:
  assumes "getProp payload (lit ''confirm'') \<noteq> JBool True"
  shows "placePizzaOrder js ev now payload s =
           ((case assertString (getProp payload (lit ''orderToken'')) ''orderToken'' of
               Inl e \<Rightarrow> Inl (UserError (Required ''orderToken''))
             | Inr orderToken \<Rightarrow> Inl (UserError ConfirmationRequired)), s)"
  using assms
  by (auto simp: placePizzaOrder_def assertString_def split: sum.splits jsval.splits if_splits)

theorem placePizzaOrder_unconfirmed_witness:
  "getProp unconfirmedPayload (lit ''confirm'') \<noteq> JBool True \<and>
   placePizzaOrder scenarioHost (scriptedEnv []) 1000 unconfirmedPayload quotedWorld
     = (Inl (UserError ConfirmationRequired), quotedWorld)"
  using placePizzaOrder_unconfirmed [of unconfirmedPayload scenarioHost "scriptedEnv []" 1000 quotedWorld]
  by (simp add: unconfirmedPayload_def otherUuid_def js_eval)

text \<open>
  Claim C2 as stated fails: without an \<open>orderToken\<close>, a call with \<open>confirm\<close> false
  fails with the validation error for \<open>orderToken\<close>, not with the confirmation-required
  error.
\<close>

theorem placePizzaOrder_tokenless_counterexample:
  "getProp tokenlessPayload (lit ''confirm'') \<noteq> JBool True \<and>
   fst (placePizzaOrder scenarioHost (scriptedEnv []) 1000 tokenlessPayload quotedWorld)
     = Inl (UserError (Required ''orderToken'')) \<and>
   fst (placePizzaOrder scenarioHost (scriptedEnv []) 1000 tokenlessPayload quotedWorld)
     \<noteq> Inl (UserError ConfirmationRequired)"
  by (simp add: placePizzaOrder_def tokenlessPayload_def js_eval)

text \<open>
  Claim C4. A confirmed placement call whose token resolves to a stored quote older than
  30 minutes fails with the quote-expired error; the storage is read once, the record is
  deleted, and nothing else happens: no call to place-order is made.
\<close>

theorem placePizzaOrder_expired:
  assumes "getProp payload (lit ''confirm'') = JBool True"
    and "assertString (getProp payload (lit ''orderToken'')) ''orderToken'' = Inr orderToken"
    and "kv s (quoteKey orderToken) = Some saved"
    and "now - createdAt saved > 30 * 60 * 1000"
  shows "placePizzaOrder js ev now payload s =
           (Inl (UserError QuoteExpired),
            s\<lparr>kv := (kv s)(quoteKey orderToken := None),
              trace := trace s @ [StorageGet (quoteKey orderToken),
                                  StorageDelete (quoteKey orderToken)]\<rparr>)"
  using assms
  by (simp add: placePizzaOrder_def storage_get_def storage_delete_def QUOTE_TTL_MS_def)

theorem placePizzaOrder_expired_witness:
  "getProp placePayload (lit ''confirm'') = JBool True \<and>
   assertString (getProp placePayload (lit ''orderToken'')) ''orderToken'' = Inr otherUuid \<and>
   kv quotedWorld (quoteKey otherUuid) = Some storedQuote \<and>
   1800001 - createdAt storedQuote > 30 * 60 * 1000 \<and>
   fst (placePizzaOrder scenarioHost (scriptedEnv []) 1800001 placePayload quotedWorld)
     = Inl (UserError QuoteExpired) \<and>
   kv (snd (placePizzaOrder scenarioHost (scriptedEnv []) 1800001 placePayload quotedWorld))
     (quoteKey otherUuid) = None \<and>
   trace (snd (placePizzaOrder scenarioHost (scriptedEnv []) 1800001 placePayload quotedWorld))
     = [StorageGet (quoteKey otherUuid), StorageDelete (quoteKey otherUuid)]"
proof -
  have a: "getProp placePayload (lit ''confirm'') = JBool True"
    by (simp add: placePayload_def lit_def)
  have b: "assertString (getProp placePayload (lit ''orderToken'')) ''orderToken'' = Inr otherUuid"
    by (simp add: placePayload_def otherUuid_def js_eval)
  have c: "kv quotedWorld (quoteKey otherUuid) = Some storedQuote"
    by (simp add: quotedWorld_def)
  have d: "1800001 - createdAt storedQuote > 30 * 60 * 1000"
    by (simp add: storedQuote_def)
  from placePizzaOrder_expired [OF a b c d, of scenarioHost "scriptedEnv []"] a b c d
  show ?thesis by (simp add: quotedWorld_def)
qed

text \<open>
  Claim C1 does not hold of the program. A confirmed placement call with a valid, fresh
  token whose place-order call is answered with status 400 ends with the error of the HTTP
  client, and the quote is still stored under its token: the \<^verbatim>\<open>storage.delete\<close> that
  the source announces as "Cleanup draft after attempt (success or not)" is skipped by the
  exception.
\<close>

theorem placePizzaOrder_failure_keeps_quote:
  "fst (placePizzaOrder scenarioHost (scriptedEnv [jsonResponse False 400 (lit ''Bad Request'') []])
          1000 placePayload quotedWorld)
     = Inl (RequestFailed 400 (lit ''Bad Request'') JNull) \<and>
   kv (snd (placePizzaOrder scenarioHost (scriptedEnv [jsonResponse False 400 (lit ''Bad Request'') []])
          1000 placePayload quotedWorld)) (quoteKey otherUuid)
     = Some storedQuote"
  by (simp add: placePizzaOrder_def placePayload_def quotedWorld_def storedQuote_def
      otherUuid_def quoteKey_def QUOTE_TTL_MS_def pricedValue_def attempts.simps world_eval
      js_eval)

section \<open>Properties of the quote action\<close>





















lemmas quote_eval =
  quotePizzaOrder_def quoteInputs_def normalizeServiceMethod_def buildAddress_def
  buildStreetName_def stripHouseNumber_def unitMatches_def unitMarkers_def isDigit_def
  isLineTerminator_def buildProducts_def buildProduct_def js_floor_def findBestStore_def
  locatorOptions_def chooseStore_def js_find_def js_first_def
  orderPayload_def orderIdOf_def validationFailed_def quoteKey_def summarizeQuote_def
  quotePayload_def storesValue_def pricedValue_def
  refusedValue_def blankStatusValue_def firstUuid_def otherUuid_def
  attempts.simps world_eval text_eval js_eval




lemma storageWrite_retrySchedule: "filter storageWrite (retrySchedule rq ds) = []"
  by (induction ds) simp_all

lemma dominosFetchJson_trace:
  assumes "dominosFetchJson js ev path opts s = (r, s')"
    and "buildRequest js path opts = Inr rq"
  shows "kv s' = kv s \<and> minted s' = minted s \<and>
         (\<exists>ds. trace s' = trace s @ retrySchedule rq ds)"
proof -
  from assms have "attempts js ev rq 1 None s = (r, s')"
    by (simp add: dominosFetchJson_def)
  from attempts_shape [OF _ _ this] show ?thesis
    by (auto simp: maxAttempts_def)
qed

lemma dominosFetchJson_returns:
  assumes "dominosFetchJson js ev path opts s = (Inr v, s')"
  shows "\<exists>rq ds. buildRequest js path opts = Inr rq \<and> kv s' = kv s \<and> minted s' = minted s \<and>
           trace s' = trace s @ retrySchedule rq ds"
proof (cases "buildRequest js path opts")
  case (Inl e)
  with assms show ?thesis by (simp add: dominosFetchJson_def)
next
  case (Inr rq)
  with dominosFetchJson_trace [OF assms Inr] show ?thesis by auto
qed

lemma findBestStore_returns:
  assumes "findBestStore js ev a c r p sm s = (Inr res, s')"
  shows "\<exists>opts rq ds. locatorOptions js a c r p sm = Inr opts \<and>
           buildRequest js (lit ''/power/store-locator'') opts = Inr rq \<and>
           kv s' = kv s \<and> minted s' = minted s \<and>
           trace s' = trace s @ retrySchedule rq ds"
proof (cases "locatorOptions js a c r p sm")
  case (Inl e)
  with assms show ?thesis by (simp add: findBestStore_def)
next
  case (Inr opts)
  obtain r0 s0 where run: "dominosFetchJson js ev (lit ''/power/store-locator'') opts s = (r0, s0)"
    by (cases "dominosFetchJson js ev (lit ''/power/store-locator'') opts s")
  with assms Inr obtain data where "r0 = Inr data" "s' = s0"
    by (cases r0) (auto simp: findBestStore_def)
  with dominosFetchJson_returns [of js ev "lit ''/power/store-locator''" opts s data s0] run Inr
  show ?thesis by auto
qed

lemma quotePizzaOrder_Rejected:
  assumes "quotePizzaOrder js ev now payload s = (Inr (Rejected st msg details), s')"
  shows "\<exists>serviceMethod address phone email products storeId store s1.
           quoteInputs js payload = Inr (serviceMethod, address, phone, email, products) \<and>
           findBestStore js ev (getProp payload (lit ''addressLine1''))
             (getProp payload (lit ''city'')) (getProp payload (lit ''region''))
             (getProp payload (lit ''postalCode'')) serviceMethod s
             = (Inr (storeId, store), s1) \<and>
           dominosFetchJson js ev (lit ''/power/validate-order'')
             (postOptions (orderPayload address email (orderIdOf (uuid ev (minted s1))) phone
                products serviceMethod storeId))
             (s1\<lparr>minted := Suc (minted s1)\<rparr>) = (Inr details, s')"
  using assms
  by (auto simp: quotePizzaOrder_def randomUUID_def Let_def
      split: sum.splits prod.splits if_splits)

text \<open>
  Claim C10. When \<open>quotePizzaOrder\<close> returns a rejection, the storage is what it was
  before the call, no write to it is among the effects of the call, and only one UUID has
  been drawn, the one of the order id: no confirmation token has been generated.
\<close>

theorem quotePizzaOrder_rejection_keeps_storage:
  assumes "quotePizzaOrder js ev now payload s = (Inr (Rejected st msg details), s')"
  shows "kv s' = kv s \<and> minted s' = Suc (minted s) \<and>
         filter storageWrite (trace s') = filter storageWrite (trace s)"
proof -
  from quotePizzaOrder_Rejected [OF assms]
  obtain serviceMethod address phone email products storeId store s1 where
    store: "findBestStore js ev (getProp payload (lit ''addressLine1''))
             (getProp payload (lit ''city'')) (getProp payload (lit ''region''))
             (getProp payload (lit ''postalCode'')) serviceMethod s
             = (Inr (storeId, store), s1)"
    and validate: "dominosFetchJson js ev (lit ''/power/validate-order'')
             (postOptions (orderPayload address email (orderIdOf (uuid ev (minted s1))) phone
                products serviceMethod storeId))
             (s1\<lparr>minted := Suc (minted s1)\<rparr>) = (Inr details, s')"
    by blast
  from findBestStore_returns [OF store] dominosFetchJson_returns [OF validate]
  show ?thesis by (auto simp: storageWrite_retrySchedule)
qed

lemma refused_run:
  "fst (quotePizzaOrder scenarioHost (scriptedEnv refusingScript) 1000 quotePayload emptyWorld)
   = Inr (Rejected (JNum (Fin 1)) (JStr (lit ''Address not serviceable'')) refusedValue)"
  by (simp add: refusingScript_def quote_eval)

theorem quotePizzaOrder_rejection_keeps_storage_witness:
  "fst (quotePizzaOrder scenarioHost (scriptedEnv refusingScript) 1000 quotePayload emptyWorld)
     = Inr (Rejected (JNum (Fin 1)) (JStr (lit ''Address not serviceable'')) refusedValue) \<and>
   kv (snd (quotePizzaOrder scenarioHost (scriptedEnv refusingScript) 1000 quotePayload emptyWorld))
     = Map.empty \<and>
   minted (snd (quotePizzaOrder scenarioHost (scriptedEnv refusingScript) 1000 quotePayload
     emptyWorld)) = 1 \<and>
   filter storageWrite (trace (snd (quotePizzaOrder scenarioHost (scriptedEnv refusingScript) 1000
     quotePayload emptyWorld))) = []"
proof -
  let ?run = "quotePizzaOrder scenarioHost (scriptedEnv refusingScript) 1000 quotePayload emptyWorld"
  have run: "?run =
      (Inr (Rejected (JNum (Fin 1)) (JStr (lit ''Address not serviceable'')) refusedValue),
       snd ?run)"
    using refused_run by (simp add: prod_eq_iff)
  from quotePizzaOrder_rejection_keeps_storage [OF run] refused_run
  show ?thesis by (simp add: emptyWorld_def)
qed

text \<open>
  Claim C7, as amended. When the inputs are accepted, a store is found and validate-order
  answers with a response whose \<open>Status\<close> is truthy and not the string \<open>"0"\<close>,
  \<open>quotePizzaOrder\<close> returns the rejection with that status, the message of the response
  (or the fixed one) and the response as details. The call ends in the state validate-order
  left: the network has seen the calls to the store locator and to validate-order only,
  the storage is untouched, and the one UUID drawn is the order id.
\<close>

theorem quotePizzaOrder_validation_rejected:
  assumes inputs: "quoteInputs js payload = Inr (serviceMethod, address, phone, email, products)"
    and store: "findBestStore js ev (getProp payload (lit ''addressLine1''))
             (getProp payload (lit ''city'')) (getProp payload (lit ''region''))
             (getProp payload (lit ''postalCode'')) serviceMethod s
             = (Inr (storeId, store), s1)"
    and orderId: "randomUUID ev s1 = (u, s2)"
    and validate: "dominosFetchJson js ev (lit ''/power/validate-order'')
             (postOptions (orderPayload address email (orderIdOf u) phone products serviceMethod
                storeId)) s2 = (Inr validated, s3)"
    and status: "truthy (getProp validated (lit ''Status''))"
      "getProp validated (lit ''Status'') \<noteq> JStr (lit ''0'')"
  shows "quotePizzaOrder js ev now payload s =
           (Inr (Rejected (getProp validated (lit ''Status''))
                   (js_or (getProp validated (lit ''Message''))
                      (JStr (lit ''Order validation failed.'')))
                   validated), s3) \<and>
         kv s3 = kv s \<and> minted s3 = Suc (minted s) \<and>
         (\<exists>opts rq1 rq2 ds1 ds2.
            locatorOptions js (getProp payload (lit ''addressLine1''))
              (getProp payload (lit ''city'')) (getProp payload (lit ''region''))
              (getProp payload (lit ''postalCode'')) serviceMethod = Inr opts \<and>
            buildRequest js (lit ''/power/store-locator'') opts = Inr rq1 \<and>
            buildRequest js (lit ''/power/validate-order'')
              (postOptions (orderPayload address email (orderIdOf u) phone products serviceMethod
                 storeId)) = Inr rq2 \<and>
            trace s3 = trace s @ retrySchedule rq1 ds1 @ retrySchedule rq2 ds2)"
proof -
  have failed: "validationFailed validated"
    using status by (auto simp: validationFailed_def)
  have s2: "kv s2 = kv s1" "minted s2 = Suc (minted s1)" "trace s2 = trace s1"
    using orderId by (auto simp: randomUUID_def)
  have result: "quotePizzaOrder js ev now payload s =
           (Inr (Rejected (getProp validated (lit ''Status''))
                   (js_or (getProp validated (lit ''Message''))
                      (JStr (lit ''Order validation failed.'')))
                   validated), s3)"
    using inputs store orderId validate failed by (simp add: quotePizzaOrder_def)
  from findBestStore_returns [OF store] obtain opts rq1 ds1 where
    s1: "locatorOptions js (getProp payload (lit ''addressLine1''))
           (getProp payload (lit ''city'')) (getProp payload (lit ''region''))
           (getProp payload (lit ''postalCode'')) serviceMethod = Inr opts"
      "buildRequest js (lit ''/power/store-locator'') opts = Inr rq1"
      "kv s1 = kv s" "minted s1 = minted s"
      "trace s1 = trace s @ retrySchedule rq1 ds1"
    by blast
  from dominosFetchJson_returns [OF validate] obtain rq2 ds2 where
    s3: "buildRequest js (lit ''/power/validate-order'')
           (postOptions (orderPayload address email (orderIdOf u) phone products serviceMethod
              storeId)) = Inr rq2"
      "kv s3 = kv s2" "minted s3 = minted s2"
      "trace s3 = trace s2 @ retrySchedule rq2 ds2"
    by blast
  have "trace s3 = trace s @ retrySchedule rq1 ds1 @ retrySchedule rq2 ds2"
    using s1 s2 s3 by simp
  with s1(1,2) s3(1) have "\<exists>opts rq1 rq2 ds1 ds2.
      locatorOptions js (getProp payload (lit ''addressLine1''))
        (getProp payload (lit ''city'')) (getProp payload (lit ''region''))
        (getProp payload (lit ''postalCode'')) serviceMethod = Inr opts \<and>
      buildRequest js (lit ''/power/store-locator'') opts = Inr rq1 \<and>
      buildRequest js (lit ''/power/validate-order'')
        (postOptions (orderPayload address email (orderIdOf u) phone products serviceMethod
           storeId)) = Inr rq2 \<and>
      trace s3 = trace s @ retrySchedule rq1 ds1 @ retrySchedule rq2 ds2"
    by blast
  then show ?thesis using result s1 s2 s3 by simp
qed

theorem quotePizzaOrder_validation_rejected_witness:
  "quoteInputs scenarioHost quotePayload
     = Inr (lit ''Delivery'',
            JObj [(lit ''Street'', JStr (lit ''93 Monitor St'')),
                  (lit ''StreetName'', JStr (lit ''Monitor St'')),
                  (lit ''City'', JStr (lit ''BROOKLYN'')), (lit ''Region'', JStr (lit ''NY'')),
                  (lit ''PostalCode'', JStr (lit ''11222'')), (lit ''Type'', JStr (lit ''House''))],
            lit ''5551112222'', lit ''test@example.com'',
            [JObj [(lit ''Code'', JStr (lit ''12SCREEN'')), (lit ''Qty'', JNum (Fin 1)),
                   (lit ''ID'', JNum (Fin 1)), (lit ''isNew'', JBool False)]]) \<and>
   truthy (getProp refusedValue (lit ''Status'')) \<and>
   getProp refusedValue (lit ''Status'') \<noteq> JStr (lit ''0'') \<and>
   fst (quotePizzaOrder scenarioHost (scriptedEnv refusingScript) 1000 quotePayload emptyWorld)
     = Inr (Rejected (JNum (Fin 1)) (JStr (lit ''Address not serviceable'')) refusedValue) \<and>
   length (trace (snd (quotePizzaOrder scenarioHost (scriptedEnv refusingScript) 1000 quotePayload
     emptyWorld))) = 2"
proof -
  let ?ev = "scriptedEnv refusingScript"
  let ?address = "JObj [(lit ''Street'', JStr (lit ''93 Monitor St'')),
                  (lit ''StreetName'', JStr (lit ''Monitor St'')),
                  (lit ''City'', JStr (lit ''BROOKLYN'')), (lit ''Region'', JStr (lit ''NY'')),
                  (lit ''PostalCode'', JStr (lit ''11222'')), (lit ''Type'', JStr (lit ''House''))]"
  let ?products = "[JObj [(lit ''Code'', JStr (lit ''12SCREEN'')), (lit ''Qty'', JNum (Fin 1)),
                   (lit ''ID'', JNum (Fin 1)), (lit ''isNew'', JBool False)]]"
  let ?store = "JObj [(lit ''StoreID'', JStr (lit ''3679'')), (lit ''IsOnlineNow'', JBool True),
                      (lit ''IsOpen'', JBool True)]"
  let ?find = "findBestStore scenarioHost ?ev (getProp quotePayload (lit ''addressLine1''))
                 (getProp quotePayload (lit ''city'')) (getProp quotePayload (lit ''region''))
                 (getProp quotePayload (lit ''postalCode'')) (lit ''Delivery'') emptyWorld"
  let ?mint = "randomUUID ?ev (snd ?find)"
  let ?validate = "dominosFetchJson scenarioHost ?ev (lit ''/power/validate-order'')
                     (postOptions (orderPayload ?address (lit ''test@example.com'')
                        (orderIdOf firstUuid) (lit ''5551112222'') ?products (lit ''Delivery'')
                        (lit ''3679''))) (snd ?mint)"
  have inputs: "quoteInputs scenarioHost quotePayload
      = Inr (lit ''Delivery'', ?address, lit ''5551112222'', lit ''test@example.com'', ?products)"
    by (simp add: quote_eval)
  have store: "?find = (Inr (lit ''3679'', ?store), snd ?find)"
    by (simp add: prod_eq_iff refusingScript_def quote_eval)
  have orderId: "?mint = (firstUuid, snd ?mint)"
    by (simp add: prod_eq_iff refusingScript_def quote_eval)
  have validate: "?validate = (Inr refusedValue, snd ?validate)"
    by (simp add: prod_eq_iff refusingScript_def quote_eval)
  have status: "truthy (getProp refusedValue (lit ''Status''))"
    "getProp refusedValue (lit ''Status'') \<noteq> JStr (lit ''0'')"
    by (simp_all add: refusedValue_def lit_def)
  from quotePizzaOrder_validation_rejected [OF inputs store orderId validate status, of 1000]
  have result: "quotePizzaOrder scenarioHost ?ev 1000 quotePayload emptyWorld =
       (Inr (Rejected (getProp refusedValue (lit ''Status''))
          (js_or (getProp refusedValue (lit ''Message'')) (JStr (lit ''Order validation failed.'')))
          refusedValue), snd ?validate)"
    by blast
  have "length (trace (snd ?validate)) = 2"
    by (simp add: refusingScript_def quote_eval)
  with result inputs status show ?thesis
    by (simp add: refusedValue_def js_or_def lit_def)
qed

text \<open>
  Claim C7 as stated fails: a validate-order response whose \<open>Status\<close> is present and is
  the empty string, neither the number \<open>0\<close> nor the string \<open>"0"\<close>, is not rejected. The
  third call goes to price-order, a token is generated and the quote is stored.
\<close>

theorem quotePizzaOrder_validation_unset_counterexample:
  "parseJSON scenarioHost blankStatusText = Inr blankStatusValue \<and>
   map_of (ownProps blankStatusValue) (lit ''Status'') = Some (JStr []) \<and>
   fst (quotePizzaOrder scenarioHost (scriptedEnv blankStatusScript) 1000 quotePayload emptyWorld)
     = Inr (Quoted otherUuid
         \<lparr>sm_storeId = JStr (lit ''3679''), sm_serviceMethod = JStr (lit ''Delivery''),
          sm_items = [], sm_totals = JObj [(lit ''Customer'', JNum (Fin (1234 / 100)))],
          sm_total = JNum (Fin (1234 / 100))\<rparr>) \<and>
   (\<exists>rq. buildRequest scenarioHost (lit ''/power/price-order'') (postOptions blankStatusValue)
            = Inr rq \<and>
      trace (snd (quotePizzaOrder scenarioHost (scriptedEnv blankStatusScript) 1000 quotePayload
            emptyWorld)) ! 2 = Fetch rq) \<and>
   map_option pricedDraft
     (kv (snd (quotePizzaOrder scenarioHost (scriptedEnv blankStatusScript) 1000 quotePayload
            emptyWorld)) (quoteKey otherUuid))
     = Some pricedValue"
  by (simp add: blankStatusScript_def quote_eval)

end
